theory Spec2Isabelle
  imports Main "HOL-Library.Sublist"
begin

section \<open>Data model (types/index.ts)\<close>

text \<open>
  \<^verbatim>\<open>AxeStatus = 'ACTIVE' | 'PAUSED' | 'BLOCKED'\<close> and \<^verbatim>\<open>AxeSide = 'Bid' | 'Offer'\<close> are
  string-literal unions; they become datatypes. A quantity is a JavaScript number; only
  equality and the comparison with 1 are ever applied to it, and it is modelled as an
  \<open>int\<close> (so \<open>NaN\<close> and fractions are outside the model).

  A JavaScript string is a sequence of UTF-16 code units. The store and the views only
  copy strings and compare them for equality; there a string is a \<open>string\<close>. The
  instrument directory measures, lower-cases and scans the strings of an instrument, so
  the strings of an instrument are lists over a type \<open>'c\<close> of code units, which the
  store and the views take at \<open>char\<close>.
\<close>

datatype AxeStatus = ACTIVE | PAUSED | BLOCKED

datatype AxeSide = Bid | Offer

record 'c BondInstrument =
  isin :: "'c list"
  description :: "'c list"
  maturity :: "'c list"
  issuer :: "'c list"

text \<open>
  The fields of \<^verbatim>\<open>Axe\<close> that repeat those of an instrument carry the prefix \<open>axe_\<close>
  (record fields of one theory share a name space); \<^verbatim>\<open>id\<close> is \<open>axe_id\<close>.
\<close>

record Axe =
  axe_id :: string
  axe_isin :: string
  axe_description :: string
  axe_maturity :: string
  axe_issuer :: string
  side :: AxeSide
  quantity :: int
  status :: AxeStatus
  lastUpdate :: string

text \<open>\<^verbatim>\<open>CreateOrUpdateAxeRequest\<close>: the optional \<^verbatim>\<open>id?: string\<close> is an option.\<close>

record CreateOrUpdateAxeRequest =
  req_id :: "string option"
  req_isin :: string
  req_side :: AxeSide
  req_quantity :: int

section \<open>Record store (services/mockAxeService.ts)\<close>

text \<open>
  \<^verbatim>\<open>private axes: Map<string, Axe>\<close> is a JavaScript \<^verbatim>\<open>Map\<close>: it iterates in insertion
  order, \<^verbatim>\<open>set\<close> on a key already present keeps the key's position, and \<^verbatim>\<open>set\<close> on a
  new key appends. It is an association list with these three operations written out.
  \<^verbatim>\<open>private listeners: Set<AxeListener>\<close> is a set of function references in insertion
  order; a listener is identified by a natural number.
\<close>

type_synonym AxeMap = "(string \<times> Axe) list"

definition Map_get :: "AxeMap \<Rightarrow> string \<Rightarrow> Axe option" where
  "Map_get m k = map_of m k"

definition Map_has :: "AxeMap \<Rightarrow> string \<Rightarrow> bool" where
  "Map_has m k = (map_of m k \<noteq> None)"

fun Map_set :: "AxeMap \<Rightarrow> string \<Rightarrow> Axe \<Rightarrow> AxeMap" where
  "Map_set [] k v = [(k, v)]"
| "Map_set ((k', v') # m) k v = (if k' = k then (k, v) # m else (k', v') # Map_set m k v)"

definition Map_delete :: "AxeMap \<Rightarrow> string \<Rightarrow> AxeMap" where
  "Map_delete m k = filter (\<lambda>p. fst p \<noteq> k) m"

definition Map_values :: "AxeMap \<Rightarrow> Axe list" where
  "Map_values m = map snd m"

type_synonym AxeListener = nat

record MockAxeService =
  axes :: AxeMap
  listeners :: "AxeListener list"

text \<open>
  The errors the store throws: \<^verbatim>\<open>new Error(`Instrument not found: ${request.isin}`)\<close> and
  \<^verbatim>\<open>new Error(`Axe not found: ${id}`)\<close>.
\<close>

datatype error = InstrumentNotFound string | AxeNotFound string

fun message :: "error \<Rightarrow> string" where
  "message (InstrumentNotFound i) = ''Instrument not found: '' @ i"
| "message (AxeNotFound i) = ''Axe not found: '' @ i"

text \<open>
  A call of a listener is a delivery: the listener and the array it was called with. Every
  store operation returns the store after the call, the deliveries it made, in order, and
  what its promise settles with (\<open>Inl\<close>: rejected with that error). The awaited
  \<^verbatim>\<open>simulateDelay()\<close> only postpones the body; the body itself runs in one turn of the
  event loop and is what is modelled.
\<close>

type_synonym Delivery = "AxeListener \<times> Axe list"

type_synonym 'a outcome = "MockAxeService \<times> Delivery list \<times> (error + 'a)"

definition getAxesArray :: "MockAxeService \<Rightarrow> Axe list" where
  "getAxesArray s = Map_values (axes s)"

definition broadcast :: "MockAxeService \<Rightarrow> Delivery list" where
  "broadcast s = (let a = getAxesArray s in map (\<lambda>listener. (listener, a)) (listeners s))"

definition subscribe :: "AxeListener \<Rightarrow> MockAxeService \<Rightarrow> MockAxeService \<times> Delivery list" where
  "subscribe listener s =
     (let s' = s\<lparr>listeners :=
                 (if listener \<in> set (listeners s) then listeners s
                  else listeners s @ [listener])\<rparr>
      in (s', [(listener, getAxesArray s')]))"

text \<open>The function \<^verbatim>\<open>subscribe\<close> returns: \<^verbatim>\<open>this.listeners.delete(listener)\<close>.\<close>

definition unsubscribe :: "AxeListener \<Rightarrow> MockAxeService \<Rightarrow> MockAxeService" where
  "unsubscribe listener s = s\<lparr>listeners := removeAll listener (listeners s)\<rparr>"

text \<open>
  \<^verbatim>\<open>findInstrument\<close> searches \<^verbatim>\<open>mockInstruments\<close>, the generated table of 15000
  instruments; the table is a parameter of the model.
\<close>

definition findInstrument ::
  "char BondInstrument list \<Rightarrow> string \<Rightarrow> char BondInstrument option" where
  "findInstrument mockInstruments i = find (\<lambda>x. isin x = i) mockInstruments"

text \<open>
  \<^verbatim>\<open>createOrUpdateAxe\<close>. The results of \<^verbatim>\<open>uuidv4()\<close> and of
  \<^verbatim>\<open>new Date().toISOString()\<close> are the parameters \<open>uuid\<close> and \<open>now\<close>.
  \<^verbatim>\<open>!!request.id\<close> is false for an absent identifier and for the empty string;
  \<^verbatim>\<open>request.id ?? uuidv4()\<close> replaces only an absent identifier.
\<close>

definition createOrUpdateAxe ::
  "char BondInstrument list \<Rightarrow> string \<Rightarrow> string \<Rightarrow> CreateOrUpdateAxeRequest
     \<Rightarrow> MockAxeService \<Rightarrow> Axe outcome" where
  "createOrUpdateAxe mockInstruments uuid now request s =
     (case findInstrument mockInstruments (req_isin request) of
        None \<Rightarrow> (s, [], Inl (InstrumentNotFound (req_isin request)))
      | Some instrument \<Rightarrow>
          (let isUpdate = (case req_id request of
                             None \<Rightarrow> False
                           | Some i \<Rightarrow> i \<noteq> [] \<and> Map_has (axes s) i);
               i = (case req_id request of None \<Rightarrow> uuid | Some i \<Rightarrow> i);
               existing = (if isUpdate then Map_get (axes s) i else None);
               axe = \<lparr>axe_id = i,
                      axe_isin = isin instrument,
                      axe_description = description instrument,
                      axe_maturity = maturity instrument,
                      axe_issuer = issuer instrument,
                      side = req_side request,
                      quantity = req_quantity request,
                      status = (case existing of None \<Rightarrow> ACTIVE | Some e \<Rightarrow> status e),
                      lastUpdate = now\<rparr>;
               s' = s\<lparr>axes := Map_set (axes s) i axe\<rparr>
           in (s', broadcast s', Inr axe)))"

text \<open>
  \<^verbatim>\<open>setStatus\<close> assigns to the two fields of the object the map holds, which leaves the
  entry at its position: \<open>Map_set\<close> on a key that is present.
\<close>

definition setStatus :: "string \<Rightarrow> string \<Rightarrow> AxeStatus \<Rightarrow> MockAxeService \<Rightarrow> unit outcome" where
  "setStatus now i st s =
     (case Map_get (axes s) i of
        None \<Rightarrow> (s, [], Inl (AxeNotFound i))
      | Some axe \<Rightarrow>
          (let s' = s\<lparr>axes := Map_set (axes s) i (axe\<lparr>status := st, lastUpdate := now\<rparr>)\<rparr>
           in (s', broadcast s', Inr ())))"

definition pauseAxe :: "string \<Rightarrow> string \<Rightarrow> MockAxeService \<Rightarrow> unit outcome" where
  "pauseAxe now i s = setStatus now i PAUSED s"

definition resumeAxe :: "string \<Rightarrow> string \<Rightarrow> MockAxeService \<Rightarrow> unit outcome" where
  "resumeAxe now i s = setStatus now i ACTIVE s"

definition blockAxe :: "string \<Rightarrow> string \<Rightarrow> MockAxeService \<Rightarrow> unit outcome" where
  "blockAxe now i s = setStatus now i BLOCKED s"

definition unblockAxe :: "string \<Rightarrow> string \<Rightarrow> MockAxeService \<Rightarrow> unit outcome" where
  "unblockAxe now i s = setStatus now i ACTIVE s"

definition deleteAxe :: "string \<Rightarrow> MockAxeService \<Rightarrow> unit outcome" where
  "deleteAxe i s =
     (if \<not> Map_has (axes s) i then (s, [], Inl (AxeNotFound i))
      else (let s' = s\<lparr>axes := Map_delete (axes s) i\<rparr>
            in (s', broadcast s', Inr ())))"

section \<open>Instrument directory (hooks/useBondInstruments.ts)\<close>

text \<open>
  \<^verbatim>\<open>String.prototype.toLowerCase\<close> is a function of the language, defined by Unicode:
  it is not a map over code units and need not keep the length. It is the parameter
  \<open>toLowerCase\<close> of the model, and nothing is assumed of it.
  \<^verbatim>\<open>String.prototype.includes\<close> is a scan over the start positions, and
  \<^verbatim>\<open>query.length\<close> is the number of code units.
\<close>

fun str_includes :: "'c list \<Rightarrow> 'c list \<Rightarrow> bool" where
  "str_includes [] needle = (needle = [])"
| "str_includes (c # cs) needle = (prefix needle (c # cs) \<or> str_includes cs needle)"

text \<open>\<^verbatim>\<open>!query\<close> holds of the empty string; \<^verbatim>\<open>slice(0, 50)\<close> is \<open>take 50\<close>.\<close>

definition searchInstruments ::
  "('c list \<Rightarrow> 'c list) \<Rightarrow> 'c BondInstrument list \<Rightarrow> 'c list \<Rightarrow> 'c BondInstrument list" where
  "searchInstruments toLowerCase instruments query =
     (if query = [] \<or> length query < 2 then []
      else (let lower = toLowerCase query
            in take 50 (filter (\<lambda>i. str_includes (toLowerCase (isin i)) lower \<or>
                                     str_includes (toLowerCase (description i)) lower)
                               instruments)))"

section \<open>Subscription bridge (hooks/useBondAxes.ts)\<close>

text \<open>
  Each subscriber holds the array of its last delivery: the listener of \<^verbatim>\<open>useBondAxes\<close>
  is \<^verbatim>\<open>(newAxes) => setAxes([...newAxes])\<close>. \<open>deliver\<close> runs the deliveries of one
  store operation over the held arrays of all subscribers.
\<close>

fun deliver :: "Delivery list \<Rightarrow> (AxeListener \<Rightarrow> Axe list) \<Rightarrow> (AxeListener \<Rightarrow> Axe list)" where
  "deliver [] held = held"
| "deliver ((listener, newAxes) # ds) held = deliver ds (held(listener := newAxes))"

section \<open>Reconciliation layer (components/v4/AxeManagerV4.tsx, components/v6/AxeManagerV6.tsx)\<close>

text \<open>
  \<^verbatim>\<open>PendingEdits = Record<string, { side?: AxeSide; quantity?: number }>\<close>. A field of a
  draft that is \<^verbatim>\<open>undefined\<close> or \<^verbatim>\<open>null\<close> is \<open>None\<close>: the code reads the fields
  with \<^verbatim>\<open>??\<close> only, which treats the two alike. The object is a map from identifiers
  (identifiers are assumed not to be names of \<^verbatim>\<open>Object.prototype\<close>).
\<close>

record PendingEdit =
  edit_side :: "AxeSide option"
  edit_quantity :: "int option"

type_synonym PendingEdits = "string \<rightharpoonup> PendingEdit"

text \<open>\<^verbatim>\<open>a ?? b\<close>\<close>

fun coalesce :: "'a option \<Rightarrow> 'a \<Rightarrow> 'a" where
  "coalesce None b = b"
| "coalesce (Some a) b = a"

text \<open>\<^verbatim>\<open>AxeRow extends Axe { _isNew?: boolean }\<close>\<close>

record AxeRow = Axe +
  isNew :: "bool option"

text \<open>
  The pinned row of V6 is an \<^verbatim>\<open>AxeRow\<close> whose \<^verbatim>\<open>id\<close>, \<^verbatim>\<open>status\<close>, \<^verbatim>\<open>lastUpdate\<close> and
  \<^verbatim>\<open>_isNew\<close> never change (\<^verbatim>\<open>PINNED_ROW_ID\<close>, \<^verbatim>\<open>'ACTIVE'\<close>, \<^verbatim>\<open>''\<close>, \<^verbatim>\<open>true\<close>); the
  record holds the six fields that do. The number editor can store \<^verbatim>\<open>null\<close> in its
  quantity.
\<close>

record PinnedRow =
  p_isin :: string
  p_description :: string
  p_maturity :: string
  p_issuer :: string
  p_side :: AxeSide
  p_quantity :: "int option"

definition PINNED_ROW_ID :: string where
  "PINNED_ROW_ID = ''pinned-new-axe''"

definition DEFAULT_PINNED_ROW :: PinnedRow where
  "DEFAULT_PINNED_ROW =
     \<lparr>p_isin = [], p_description = [], p_maturity = [], p_issuer = [],
      p_side = Bid, p_quantity = Some 1000000\<rparr>"

text \<open>
  The state of a view: the array held by the bridge (\<^verbatim>\<open>axes\<close>; written by the listener
  and by \<^verbatim>\<open>setAxesOptimistic\<close>) and \<^verbatim>\<open>pendingEdits\<close>; V6 adds \<^verbatim>\<open>pinnedRow\<close>.
\<close>

record View =
  v_axes :: "Axe list"
  pendingEdits :: PendingEdits

record ViewV6 = View +
  pinnedRow :: PinnedRow

definition initialV4 :: View where
  "initialV4 = \<lparr>v_axes = [], pendingEdits = Map.empty\<rparr>"

definition initialV6 :: ViewV6 where
  "initialV6 = \<lparr>v_axes = [], pendingEdits = Map.empty, pinnedRow = DEFAULT_PINNED_ROW\<rparr>"

text \<open>The listener registered by \<^verbatim>\<open>useBondAxes\<close>: the held array is replaced wholesale.\<close>

definition listener :: "Axe list \<Rightarrow> 'v View_scheme \<Rightarrow> 'v View_scheme" where
  "listener newAxes view = view\<lparr>v_axes := newAxes\<rparr>"

text \<open>
  What a handler does besides changing the state: the commands it sends to the store and
  the notifications it shows (title, message, colour).
\<close>

datatype Command =
    CreateOrUpdate CreateOrUpdateAxeRequest
  | Pause string
  | Resume string
  | Block string
  | Unblock string
  | Delete string

datatype Notification = Notification string string string

type_synonym 'v effect = "'v \<times> Command list \<times> Notification list"

subsection \<open>Rendered rows\<close>

text \<open>V4, \<^verbatim>\<open>displayData\<close>.\<close>

definition displayData :: "Axe list \<Rightarrow> PendingEdits \<Rightarrow> Axe list" where
  "displayData axs pe =
     map (\<lambda>axe. case pe (axe_id axe) of
                  None \<Rightarrow> axe
                | Some edits \<Rightarrow> axe\<lparr>side := coalesce (edit_side edits) (side axe),
                                     quantity := coalesce (edit_quantity edits) (quantity axe)\<rparr>)
         axs"

text \<open>V6, \<^verbatim>\<open>rowData\<close>: \<^verbatim>\<open>edits?.side ?? a.side\<close>, and every row gets \<^verbatim>\<open>_isNew: false\<close>.\<close>

definition rowData :: "Axe list \<Rightarrow> PendingEdits \<Rightarrow> AxeRow list" where
  "rowData axs pe =
     map (\<lambda>a. let edits = pe (axe_id a)
               in \<lparr>axe_id = axe_id a,
                   axe_isin = axe_isin a,
                   axe_description = axe_description a,
                   axe_maturity = axe_maturity a,
                   axe_issuer = axe_issuer a,
                   side = (case edits of None \<Rightarrow> side a
                           | Some e \<Rightarrow> coalesce (edit_side e) (side a)),
                   quantity = (case edits of None \<Rightarrow> quantity a
                               | Some e \<Rightarrow> coalesce (edit_quantity e) (quantity a)),
                   status = status a,
                   lastUpdate = lastUpdate a,
                   isNew = Some False\<rparr>)
         axs"

subsection \<open>Cell edits\<close>

text \<open>
  A \<^verbatim>\<open>CellValueChangedEvent\<close>: \<^verbatim>\<open>event.data\<close>, whether \<^verbatim>\<open>event.node?.rowPinned === 'top'\<close>,
  and \<^verbatim>\<open>event.colDef.field\<close> with \<^verbatim>\<open>event.newValue\<close>. The select editor of the side
  column yields \<^verbatim>\<open>'Bid'\<close> or \<^verbatim>\<open>'Offer'\<close>; the number editor of the quantity column
  yields a number or \<^verbatim>\<open>null\<close>; \<open>TextChange f v\<close> is an edit of any other field
  \<open>f\<close>, \<open>v = None\<close> for \<^verbatim>\<open>null\<close>.
\<close>

datatype CellChange =
    SideChange AxeSide
  | QuantityChange "int option"
  | TextChange string "string option"

record 'r CellValueChangedEvent =
  ev_data :: "'r option"
  ev_rowPinned :: bool
  ev_change :: CellChange

text \<open>\<^verbatim>\<open>{ ...existing, [field]: event.newValue }\<close> for the two draft fields.\<close>

fun withField :: "PendingEdit \<Rightarrow> CellChange \<Rightarrow> PendingEdit" where
  "withField existing (SideChange v) = existing\<lparr>edit_side := Some v\<rparr>"
| "withField existing (QuantityChange v) = existing\<lparr>edit_quantity := v\<rparr>"
| "withField existing (TextChange f v) = existing"

text \<open>
  The edit of an existing row, the same text in V4 (lines 163 to 183) and V6 (lines 150 to
  170): the field must be side or quantity, the record must be in \<^verbatim>\<open>axes\<close>, and the
  updater of \<^verbatim>\<open>setPendingEdits\<close> compares the effective values with the record's.
\<close>

definition stagePendingEdit :: "string \<Rightarrow> CellChange \<Rightarrow> 'v View_scheme \<Rightarrow> 'v View_scheme" where
  "stagePendingEdit i c view =
     (case c of
        TextChange f v \<Rightarrow> view
      | _ \<Rightarrow>
        (case find (\<lambda>a. axe_id a = i) (v_axes view) of
           None \<Rightarrow> view
         | Some serverAxe \<Rightarrow>
             (let prev = pendingEdits view;
                  existing = (case prev i of
                                None \<Rightarrow> \<lparr>edit_side = None, edit_quantity = None\<rparr>
                              | Some e \<Rightarrow> e);
                  updated = withField existing c;
                  sideVal = coalesce (edit_side updated) (side serverAxe);
                  qtyVal = coalesce (edit_quantity updated) (quantity serverAxe)
              in if sideVal = side serverAxe \<and> qtyVal = quantity serverAxe
                 then view\<lparr>pendingEdits := prev(i := None)\<rparr>
                 else view\<lparr>pendingEdits := prev(i \<mapsto> updated)\<rparr>)))"

definition onCellValueChanged_V4 :: "Axe CellValueChangedEvent \<Rightarrow> View \<Rightarrow> View" where
  "onCellValueChanged_V4 event view =
     (case ev_data event of
        None \<Rightarrow> view
      | Some axe \<Rightarrow> stagePendingEdit (axe_id axe) (ev_change event) view)"

text \<open>
  How V4 reaches \<^verbatim>\<open>onCellValueChanged\<close>. The grid gets \<^verbatim>\<open>rowData={displayData}\<close>
  (line 456); its side and quantity columns are \<^verbatim>\<open>editable: true\<close> and have no
  \<^verbatim>\<open>valueSetter\<close>, and the grid is not set to \<^verbatim>\<open>readOnlyEdit\<close>. When an editor
  closes, AG Grid then assigns the new value to the field of the row's data object and
  calls \<^verbatim>\<open>onCellValueChanged\<close> afterwards (V2 relies on it, AxeManagerV2.tsx line 119:
  "already updated in grid via AG-Grid's editable cells"). For a record without a draft
  \<^verbatim>\<open>displayData\<close> returns the held object itself (\<^verbatim>\<open>if (!edits) return axe;\<close>), so the
  assignment changes the held record before the handler looks it up; for a record with a
  draft it returns a copy, the held record is left alone, and the handler reads nothing
  but the identifier of the row. (\<^verbatim>\<open>rowData\<close> of V6 builds a new object for every
  row.)

  \<open>editCell_V4 n c\<close> is the edit \<open>c\<close> of the \<open>n\<close>-th rendered row of V4. It is
  \<open>None\<close> where the grid offers no such edit (there is no such row, or the column is not
  side or quantity) and where the held record would come to hold \<^verbatim>\<open>null\<close> as its
  quantity, which the type \<^verbatim>\<open>Axe\<close> excludes.
\<close>

fun assignField :: "Axe \<Rightarrow> CellChange \<Rightarrow> Axe option" where
  "assignField axe (SideChange v) = Some (axe\<lparr>side := v\<rparr>)"
| "assignField axe (QuantityChange (Some n)) = Some (axe\<lparr>quantity := n\<rparr>)"
| "assignField axe (QuantityChange None) = None"
| "assignField axe (TextChange f v) = None"

definition editCell_V4 :: "nat \<Rightarrow> CellChange \<Rightarrow> View \<Rightarrow> View option" where
  "editCell_V4 n c view =
     (if length (v_axes view) \<le> n then None
      else
        (case c of
           TextChange f v \<Rightarrow> None
         | _ \<Rightarrow>
           (let axe = v_axes view ! n;
                row = displayData (v_axes view) (pendingEdits view) ! n
            in case pendingEdits view (axe_id axe) of
                 None \<Rightarrow>
                   (case assignField axe c of
                      None \<Rightarrow> None
                    | Some written \<Rightarrow>
                        Some (onCellValueChanged_V4
                                \<lparr>ev_data = Some written, ev_rowPinned = False, ev_change = c\<rparr>
                                (view\<lparr>v_axes := (v_axes view)[n := written]\<rparr>)))
               | Some edits \<Rightarrow>
                   Some (onCellValueChanged_V4
                           \<lparr>ev_data = Some row, ev_rowPinned = False, ev_change = c\<rparr> view))))"

fun setPinnedText :: "string \<Rightarrow> string \<Rightarrow> PinnedRow \<Rightarrow> PinnedRow" where
  "setPinnedText f t row =
     (if f = ''isin'' then row\<lparr>p_isin := t\<rparr>
      else if f = ''description'' then row\<lparr>p_description := t\<rparr>
      else if f = ''maturity'' then row\<lparr>p_maturity := t\<rparr>
      else if f = ''issuer'' then row\<lparr>p_issuer := t\<rparr>
      else row)"

definition onCellValueChanged_V6 :: "AxeRow CellValueChangedEvent \<Rightarrow> ViewV6 \<Rightarrow> ViewV6" where
  "onCellValueChanged_V6 event view =
     (case ev_data event of
        None \<Rightarrow> view
      | Some axe \<Rightarrow>
          if ev_rowPinned event then
            (case ev_change event of
               SideChange v \<Rightarrow> view\<lparr>pinnedRow := (pinnedRow view)\<lparr>p_side := v\<rparr>\<rparr>
             | QuantityChange v \<Rightarrow> view\<lparr>pinnedRow := (pinnedRow view)\<lparr>p_quantity := v\<rparr>\<rparr>
             | TextChange f v \<Rightarrow>
                 (if f \<in> set [''isin'', ''description'', ''maturity'', ''issuer''] then
                    (case v of
                       None \<Rightarrow> view
                     | Some t \<Rightarrow> if t = [] then view
                                 else view\<lparr>pinnedRow := setPinnedText f t (pinnedRow view)\<rparr>)
                  else view))
          else stagePendingEdit (axe_id axe) (ev_change event) view)"

subsection \<open>Save and revert\<close>

text \<open>
  V4, \<^verbatim>\<open>handleSaveRow(axe)\<close>: the fallback values and the instrument code are read from
  the row it is called with. The \<^verbatim>\<open>then\<close> and \<^verbatim>\<open>catch\<close> callbacks of the update only
  show a notification.
\<close>

definition handleSaveRow_V4 :: "string \<Rightarrow> Axe \<Rightarrow> View \<Rightarrow> View effect" where
  "handleSaveRow_V4 now axe view =
     (case pendingEdits view (axe_id axe) of
        None \<Rightarrow> (view, [], [])
      | Some edits \<Rightarrow>
          (let updatedSide = coalesce (edit_side edits) (side axe);
               updatedQty = coalesce (edit_quantity edits) (quantity axe)
           in (view\<lparr>v_axes := map (\<lambda>a. if axe_id a = axe_id axe
                                        then a\<lparr>side := updatedSide, quantity := updatedQty,
                                               lastUpdate := now\<rparr>
                                        else a) (v_axes view),
                    pendingEdits := (pendingEdits view)(axe_id axe := None)\<rparr>,
               [CreateOrUpdate \<lparr>req_id = Some (axe_id axe), req_isin = axe_isin axe,
                                req_side = updatedSide, req_quantity = updatedQty\<rparr>],
               [])))"

text \<open>V6, \<^verbatim>\<open>handleSaveRow(axe)\<close>: the fallback values are read from \<^verbatim>\<open>axes\<close>.\<close>

definition handleSaveRow_V6 :: "string \<Rightarrow> 'x Axe_scheme \<Rightarrow> ViewV6 \<Rightarrow> ViewV6 effect" where
  "handleSaveRow_V6 now axe view =
     (case pendingEdits view (axe_id axe) of
        None \<Rightarrow> (view, [], [])
      | Some edits \<Rightarrow>
          (case find (\<lambda>a. axe_id a = axe_id axe) (v_axes view) of
             None \<Rightarrow> (view, [], [])
           | Some serverAxe \<Rightarrow>
               (let updatedSide = coalesce (edit_side edits) (side serverAxe);
                    updatedQty = coalesce (edit_quantity edits) (quantity serverAxe)
                in (view\<lparr>v_axes := map (\<lambda>a. if axe_id a = axe_id axe
                                             then a\<lparr>side := updatedSide, quantity := updatedQty,
                                                    lastUpdate := now\<rparr>
                                             else a) (v_axes view),
                         pendingEdits := (pendingEdits view)(axe_id axe := None)\<rparr>,
                    [CreateOrUpdate \<lparr>req_id = Some (axe_id axe), req_isin = axe_isin serverAxe,
                                     req_side = updatedSide, req_quantity = updatedQty\<rparr>],
                    []))))"

text \<open>\<^verbatim>\<open>handleRevertRow\<close> (V4 and V6) and the Revert All button, \<^verbatim>\<open>setPendingEdits({})\<close>.\<close>

definition handleRevertRow :: "'x Axe_scheme \<Rightarrow> 'v View_scheme \<Rightarrow> 'v View_scheme" where
  "handleRevertRow axe view = view\<lparr>pendingEdits := (pendingEdits view)(axe_id axe := None)\<rparr>"

definition revertAll :: "'v View_scheme \<Rightarrow> 'v View_scheme" where
  "revertAll view = view\<lparr>pendingEdits := Map.empty\<rparr>"

subsection \<open>Row actions\<close>

text \<open>
  \<^verbatim>\<open>handlePauseResume\<close>, \<^verbatim>\<open>handleBlockUnblock\<close> and \<^verbatim>\<open>handleDelete\<close> have the same text
  in V4 and V6. Their \<^verbatim>\<open>then\<close> callbacks only show a notification; so do their
  \<^verbatim>\<open>catch\<close> callbacks, of which that of \<^verbatim>\<open>handleDelete\<close> is modelled below.
\<close>

definition handlePauseResume :: "string \<Rightarrow> 'x Axe_scheme \<Rightarrow> 'v View_scheme \<Rightarrow> 'v View_scheme effect" where
  "handlePauseResume now axe view =
     (let isPaused = (status axe = PAUSED);
          newStatus = (if isPaused then ACTIVE else PAUSED)
      in (view\<lparr>v_axes := map (\<lambda>a. if axe_id a = axe_id axe
                                   then a\<lparr>status := newStatus, lastUpdate := now\<rparr> else a)
                              (v_axes view)\<rparr>,
          [if isPaused then Resume (axe_id axe) else Pause (axe_id axe)],
          []))"

definition handleBlockUnblock :: "string \<Rightarrow> 'x Axe_scheme \<Rightarrow> 'v View_scheme \<Rightarrow> 'v View_scheme effect" where
  "handleBlockUnblock now axe view =
     (let isBlocked = (status axe = BLOCKED);
          newStatus = (if isBlocked then ACTIVE else BLOCKED)
      in (view\<lparr>v_axes := map (\<lambda>a. if axe_id a = axe_id axe
                                   then a\<lparr>status := newStatus, lastUpdate := now\<rparr> else a)
                              (v_axes view)\<rparr>,
          [if isBlocked then Unblock (axe_id axe) else Block (axe_id axe)],
          []))"

definition handleDelete :: "'x Axe_scheme \<Rightarrow> 'v View_scheme \<Rightarrow> 'v View_scheme effect" where
  "handleDelete axe view =
     (view\<lparr>pendingEdits := (pendingEdits view)(axe_id axe := None),
           v_axes := filter (\<lambda>a. axe_id a \<noteq> axe_id axe) (v_axes view)\<rparr>,
      [Delete (axe_id axe)],
      [])"

text \<open>
  \<^verbatim>\<open>.catch((err) => notifications.show({ title: 'Error', message: err.message, color: 'red' }))\<close>
\<close>

definition handleDelete_catch :: "error \<Rightarrow> 'v View_scheme \<Rightarrow> 'v View_scheme effect" where
  "handleDelete_catch err view = (view, [], [Notification ''Error'' (message err) ''red''])"

subsection \<open>The pinned row of V6\<close>

text \<open>\<^verbatim>\<open>if (rowId && rowId !== PINNED_ROW_ID) return;\<close>\<close>

definition updatePinnedRowInstrument ::
  "string option \<Rightarrow> char BondInstrument \<Rightarrow> ViewV6 \<Rightarrow> ViewV6" where
  "updatePinnedRowInstrument rowId instrument view =
     (if (case rowId of None \<Rightarrow> False | Some r \<Rightarrow> r \<noteq> [] \<and> r \<noteq> PINNED_ROW_ID) then view
      else view\<lparr>pinnedRow := (pinnedRow view)\<lparr>p_isin := isin instrument,
                                               p_description := description instrument,
                                               p_maturity := maturity instrument,
                                               p_issuer := issuer instrument\<rparr>\<rparr>)"

definition clearPinnedRow :: "ViewV6 \<Rightarrow> ViewV6" where
  "clearPinnedRow view =
     view\<lparr>pinnedRow := (pinnedRow view)\<lparr>p_isin := [], p_description := [], p_maturity := [],
                                         p_issuer := [], p_side := Bid,
                                         p_quantity := Some 1000000\<rparr>\<rparr>"

text \<open>
  \<^verbatim>\<open>handleCreatePinned\<close>; \<open>newId\<close> is the result of its \<^verbatim>\<open>uuidv4()\<close>.
  \<^verbatim>\<open>!pinnedRow.quantity\<close> holds of \<^verbatim>\<open>null\<close> and of 0.
\<close>

definition handleCreatePinned :: "string \<Rightarrow> string \<Rightarrow> ViewV6 \<Rightarrow> ViewV6 effect" where
  "handleCreatePinned newId now view =
     (let row = pinnedRow view in
      if p_isin row = [] then
        (view, [], [Notification ''Validation'' ''Please select a bond instrument'' ''orange''])
      else
        (case p_quantity row of
           None \<Rightarrow>
             (view, [], [Notification ''Validation'' ''Quantity must be at least 1'' ''orange''])
         | Some q \<Rightarrow>
             if q = 0 \<or> q < 1 then
               (view, [], [Notification ''Validation'' ''Quantity must be at least 1'' ''orange''])
             else
               (let optimisticAxe =
                      \<lparr>axe_id = newId,
                       axe_isin = p_isin row,
                       axe_description = p_description row,
                       axe_maturity = p_maturity row,
                       axe_issuer = p_issuer row,
                       side = p_side row,
                       quantity = q,
                       status = ACTIVE,
                       lastUpdate = now\<rparr>
                in (clearPinnedRow (view\<lparr>v_axes := optimisticAxe # v_axes view\<rparr>),
                    [CreateOrUpdate \<lparr>req_id = None, req_isin = p_isin row,
                                     req_side = p_side row, req_quantity = q\<rparr>],
                    []))))"

text \<open>
  The \<^verbatim>\<open>catch\<close> callback of the create command:
  \<^verbatim>\<open>message: err.message || 'Failed to create axe'\<close>, then
  \<^verbatim>\<open>setAxesOptimistic((prev) => prev.filter((a) => a.id !== newId))\<close>.
\<close>

definition handleCreatePinned_catch :: "string \<Rightarrow> error \<Rightarrow> ViewV6 \<Rightarrow> ViewV6 effect" where
  "handleCreatePinned_catch newId err view =
     (view\<lparr>v_axes := filter (\<lambda>a. axe_id a \<noteq> newId) (v_axes view)\<rparr>,
      [],
      [Notification ''Error''
         (if message err = [] then ''Failed to create axe'' else message err) ''red''])"

subsection \<open>The view of V6 as a transition system\<close>

text \<open>
  Everything that changes the state of a mounted V6 view: the user's actions, the failure
  of a create command, and a broadcast of the store. The Save All button is a sequence of
  \<open>SaveRow\<close> events, one for each drafted identifier found in the held list.
\<close>

datatype Event =
    CellValueChanged "AxeRow CellValueChangedEvent"
  | SaveRow string AxeRow
  | RevertRow AxeRow
  | RevertAll
  | PauseResume string AxeRow
  | BlockUnblock string AxeRow
  | DeleteRow AxeRow
  | SelectInstrument "string option" "char BondInstrument"
  | ClearPinned
  | CreatePinned string string
  | CreateRejected string error
  | Broadcast "Axe list"

fun step :: "Event \<Rightarrow> ViewV6 \<Rightarrow> ViewV6" where
  "step (CellValueChanged event) view = onCellValueChanged_V6 event view"
| "step (SaveRow now axe) view = fst (handleSaveRow_V6 now axe view)"
| "step (RevertRow axe) view = handleRevertRow axe view"
| "step RevertAll view = revertAll view"
| "step (PauseResume now axe) view = fst (handlePauseResume now axe view)"
| "step (BlockUnblock now axe) view = fst (handleBlockUnblock now axe view)"
| "step (DeleteRow axe) view = fst (handleDelete axe view)"
| "step (SelectInstrument rowId instrument) view = updatePinnedRowInstrument rowId instrument view"
| "step ClearPinned view = clearPinnedRow view"
| "step (CreatePinned newId now) view = fst (handleCreatePinned newId now view)"
| "step (CreateRejected newId err) view = fst (handleCreatePinned_catch newId err view)"
| "step (Broadcast newAxes) view = listener newAxes view"

fun run :: "Event list \<Rightarrow> ViewV6 \<Rightarrow> ViewV6" where
  "run [] view = view"
| "run (e # es) view = run es (step e view)"

text \<open>Every identifier with a draft is the identifier of a record the view holds.\<close>

definition drafts_confirmed :: "'v View_scheme \<Rightarrow> bool" where
  "drafts_confirmed view = (dom (pendingEdits view) \<subseteq> axe_id ` set (v_axes view))"

text \<open>The events that neither replace the held array nor roll a creation back.\<close>

fun local_event :: "Event \<Rightarrow> bool" where
  "local_event (Broadcast newAxes) = False"
| "local_event (CreateRejected newId err) = False"
| "local_event e = True"

section \<open>Example data\<close>

text \<open>The first instrument of the generated table, a record on it, and a store holding it.\<close>

definition instrument_A :: "char BondInstrument" where
  "instrument_A =
     \<lparr>isin = ''US0000000000'', description = ''US Treasury 0.250% 2026 Senior Unsecured'',
      maturity = ''2026-01-01'', issuer = ''US Treasury''\<rparr>"

definition axe_A :: Axe where
  "axe_A =
     \<lparr>axe_id = ''a-1'', axe_isin = ''US0000000000'',
      axe_description = ''US Treasury 0.250% 2026 Senior Unsecured'',
      axe_maturity = ''2026-01-01'', axe_issuer = ''US Treasury'',
      side = Bid, quantity = 1000000, status = PAUSED, lastUpdate = ''t0''\<rparr>"

definition store_A :: MockAxeService where
  "store_A = \<lparr>axes = [(''a-1'', axe_A)], listeners = [0, 1]\<rparr>"

text \<open>
  For the examples of the search, strings whose code units are natural numbers: the
  seventeenth instrument of the generated table, a query that ends in the Kelvin sign
  U+212A, and a function that agrees with \<^verbatim>\<open>toLowerCase\<close> on the strings whose code
  units are ASCII or the Kelvin sign (which Unicode lower-cases to \<open>k\<close>).
\<close>

definition units :: "string \<Rightarrow> nat list" where
  "units s = map of_char s"

definition instrument_Q :: "nat BondInstrument" where
  "instrument_Q =
     \<lparr>isin = units ''ES0000000160'',
      description = units ''Bank of America 2.250% 2042 Zero Coupon'',
      maturity = units ''2042-05-17'', issuer = units ''Bank of America''\<rparr>"

definition query_kelvin :: "nat list" where
  "query_kelvin = units ''ban'' @ [8490]"

definition lower_sample :: "nat list \<Rightarrow> nat list" where
  "lower_sample s =
     map (\<lambda>n. if n = 8490 then 107 else if 65 \<le> n \<and> n \<le> 90 then n + 32 else n) s"

text \<open>A request on the first instrument, and the record the store builds from it.\<close>

definition request_A :: "string option \<Rightarrow> CreateOrUpdateAxeRequest" where
  "request_A i = \<lparr>req_id = i, req_isin = ''US0000000000'', req_side = Offer, req_quantity = 5\<rparr>"

definition axe_built :: "string \<Rightarrow> AxeStatus \<Rightarrow> Axe" where
  "axe_built i st =
     \<lparr>axe_id = i, axe_isin = ''US0000000000'',
      axe_description = ''US Treasury 0.250% 2026 Senior Unsecured'',
      axe_maturity = ''2026-01-01'', axe_issuer = ''US Treasury'',
      side = Offer, quantity = 5, status = st, lastUpdate = ''t1''\<rparr>"

text \<open>A second record, a draft on the quantity of \<open>axe_A\<close>, and the row V6 renders for it.\<close>

definition axe_C :: Axe where
  "axe_C =
     \<lparr>axe_id = ''c-3'', axe_isin = ''DE0000000010'',
      axe_description = ''Germany 0.375% 2027 Subordinated'',
      axe_maturity = ''2027-02-02'', axe_issuer = ''Germany'',
      side = Offer, quantity = 250, status = ACTIVE, lastUpdate = ''t0''\<rparr>"

definition edit_q :: PendingEdit where
  "edit_q = \<lparr>edit_side = None, edit_quantity = Some 2000000\<rparr>"

definition row_A :: AxeRow where
  "row_A =
     \<lparr>axe_id = ''a-1'', axe_isin = ''US0000000000'',
      axe_description = ''US Treasury 0.250% 2026 Senior Unsecured'',
      axe_maturity = ''2026-01-01'', axe_issuer = ''US Treasury'',
      side = Bid, quantity = 2000000, status = PAUSED, lastUpdate = ''t0'',
      isNew = Some False\<rparr>"

text \<open>Two V4 views of \<open>axe_A\<close>, with and without a draft.\<close>

definition view_A :: View where
  "view_A = \<lparr>v_axes = [axe_A], pendingEdits = [''a-1'' \<mapsto> \<lparr>edit_side = Some Offer, edit_quantity = None\<rparr>]\<rparr>"

definition view_shown :: View where
  "view_shown = \<lparr>v_axes = [axe_A], pendingEdits = Map.empty\<rparr>"

text \<open>
  A creation from the pinned row of V6: the instrument is selected, the row is confirmed
  with the client identifier \<open>''tmp-1''\<close>, and the store, which holds no record yet and
  has the view's listener 0, later answers the request with the identifier \<open>''srv-1''\<close>.
  \<open>edit_tmp\<close> is an edit of the quantity of the optimistic row.
\<close>

definition axe_tmp :: Axe where
  "axe_tmp =
     \<lparr>axe_id = ''tmp-1'', axe_isin = ''US0000000000'',
      axe_description = ''US Treasury 0.250% 2026 Senior Unsecured'',
      axe_maturity = ''2026-01-01'', axe_issuer = ''US Treasury'',
      side = Bid, quantity = 1000000, status = ACTIVE, lastUpdate = ''t1''\<rparr>"

definition row_tmp :: AxeRow where
  "row_tmp =
     \<lparr>axe_id = ''tmp-1'', axe_isin = ''US0000000000'',
      axe_description = ''US Treasury 0.250% 2026 Senior Unsecured'',
      axe_maturity = ''2026-01-01'', axe_issuer = ''US Treasury'',
      side = Bid, quantity = 1000000, status = ACTIVE, lastUpdate = ''t1'',
      isNew = Some False\<rparr>"

definition axe_srv :: Axe where
  "axe_srv =
     \<lparr>axe_id = ''srv-1'', axe_isin = ''US0000000000'',
      axe_description = ''US Treasury 0.250% 2026 Senior Unsecured'',
      axe_maturity = ''2026-01-01'', axe_issuer = ''US Treasury'',
      side = Bid, quantity = 1000000, status = ACTIVE, lastUpdate = ''t2''\<rparr>"

definition request_pinned :: CreateOrUpdateAxeRequest where
  "request_pinned =
     \<lparr>req_id = None, req_isin = ''US0000000000'', req_side = Bid, req_quantity = 1000000\<rparr>"

definition store_0 :: MockAxeService where
  "store_0 = \<lparr>axes = [], listeners = [0]\<rparr>"

definition edit_tmp :: "AxeRow CellValueChangedEvent" where
  "edit_tmp = \<lparr>ev_data = Some row_tmp, ev_rowPinned = False, ev_change = QuantityChange (Some 7)\<rparr>"

definition created :: "Event list" where
  "created = [SelectInstrument None instrument_A, CreatePinned ''tmp-1'' ''t1'']"

section \<open>Facts about the store's map and about deliveries\<close>

lemma Map_get_set: "Map_get (Map_set m k v) k' = (if k' = k then Some v else Map_get m k')"
  by (induction m) (auto simp: Map_get_def)

lemma Map_has_get: "Map_has m k = (Map_get m k \<noteq> None)"
  by (simp add: Map_has_def Map_get_def)

lemma keys_Map_set:
  "map fst (Map_set m k v) = (if Map_has m k then map fst m else map fst m @ [k])"
  by (induction m) (auto simp: Map_has_def)

lemma deliver_same:
  "deliver (map (\<lambda>x. (x, a)) ls) held l = (if l \<in> set ls then a else held l)"
  by (induction ls arbitrary: held) auto

lemma setStatus_known:
  assumes "Map_get (axes s) i = Some a"
  shows "setStatus now i st s =
     (s\<lparr>axes := Map_set (axes s) i (a\<lparr>status := st, lastUpdate := now\<rparr>)\<rparr>,
      broadcast (s\<lparr>axes := Map_set (axes s) i (a\<lparr>status := st, lastUpdate := now\<rparr>)\<rparr>),
      Inr ())"
  using assms by (simp add: setStatus_def Let_def)

section \<open>Store commands on an unknown identifier\<close>

text \<open>
  C7. For an identifier that is not a key of the store's record map, each of pause, resume,
  block, unblock and delete rejects with the error "Axe not found", returns the store as it
  was (record map and listeners), and calls no listener.
\<close>

theorem unknown_id_rejected_without_effect:
  "\<not> Map_has (axes s) i \<Longrightarrow>
     pauseAxe now i s = (s, [], Inl (AxeNotFound i)) \<and>
     resumeAxe now i s = (s, [], Inl (AxeNotFound i)) \<and>
     blockAxe now i s = (s, [], Inl (AxeNotFound i)) \<and>
     unblockAxe now i s = (s, [], Inl (AxeNotFound i)) \<and>
     deleteAxe i s = (s, [], Inl (AxeNotFound i))"
  by (simp add: pauseAxe_def resumeAxe_def blockAxe_def unblockAxe_def deleteAxe_def
      setStatus_def Map_has_def Map_get_def)

theorem unknown_id_rejected_without_effect_witness:
  "\<not> Map_has (axes store_A) ''zz'' \<and>
   pauseAxe ''t1'' ''zz'' store_A = (store_A, [], Inl (AxeNotFound ''zz'')) \<and>
   resumeAxe ''t1'' ''zz'' store_A = (store_A, [], Inl (AxeNotFound ''zz'')) \<and>
   blockAxe ''t1'' ''zz'' store_A = (store_A, [], Inl (AxeNotFound ''zz'')) \<and>
   unblockAxe ''t1'' ''zz'' store_A = (store_A, [], Inl (AxeNotFound ''zz'')) \<and>
   deleteAxe ''zz'' store_A = (store_A, [], Inl (AxeNotFound ''zz''))"
proof -
  have h: "\<not> Map_has (axes store_A) ''zz''"
    by (simp add: store_A_def Map_has_def)
  show ?thesis
    using h unknown_id_rejected_without_effect [OF h, of "''t1''"] by simp
qed

section \<open>Status commands on a known identifier\<close>

text \<open>
  C9. The store does not enforce the status state machine: for an identifier that is a key
  of the record map, whatever the status of its record, pauseAxe, resumeAxe, blockAxe and
  unblockAxe resolve and leave the record with status PAUSED, ACTIVE, BLOCKED and ACTIVE
  respectively (and a refreshed timestamp), all other fields as they were.
\<close>

theorem status_set_unconditionally:
  "Map_get (axes s) i = Some a \<Longrightarrow>
     snd (snd (pauseAxe now i s)) = Inr () \<and>
     Map_get (axes (fst (pauseAxe now i s))) i = Some (a\<lparr>status := PAUSED, lastUpdate := now\<rparr>) \<and>
     snd (snd (resumeAxe now i s)) = Inr () \<and>
     Map_get (axes (fst (resumeAxe now i s))) i = Some (a\<lparr>status := ACTIVE, lastUpdate := now\<rparr>) \<and>
     snd (snd (blockAxe now i s)) = Inr () \<and>
     Map_get (axes (fst (blockAxe now i s))) i = Some (a\<lparr>status := BLOCKED, lastUpdate := now\<rparr>) \<and>
     snd (snd (unblockAxe now i s)) = Inr () \<and>
     Map_get (axes (fst (unblockAxe now i s))) i = Some (a\<lparr>status := ACTIVE, lastUpdate := now\<rparr>)"
  by (simp add: pauseAxe_def resumeAxe_def blockAxe_def unblockAxe_def setStatus_known
      Map_get_set)

text \<open>Block invoked on a Paused record yields Blocked.\<close>

theorem status_set_unconditionally_witness:
  "Map_get (axes store_A) ''a-1'' = Some axe_A \<and> status axe_A = PAUSED \<and>
   snd (snd (blockAxe ''t1'' ''a-1'' store_A)) = Inr () \<and>
   Map_get (axes (fst (blockAxe ''t1'' ''a-1'' store_A))) ''a-1''
     = Some (axe_A\<lparr>status := BLOCKED, lastUpdate := ''t1''\<rparr>)"
proof -
  have h: "Map_get (axes store_A) ''a-1'' = Some axe_A"
    by (simp add: store_A_def Map_get_def)
  show ?thesis
    using h status_set_unconditionally [OF h, of "''t1''"] by (simp add: axe_A_def)
qed

section \<open>Broadcasts\<close>

lemma broadcast_full:
  "broadcast s = map (\<lambda>l. (l, getAxesArray s)) (listeners s)"
  by (simp add: broadcast_def Let_def)

lemma createOrUpdateAxe_broadcasts:
  "createOrUpdateAxe insts uuid now r s = (s', ds, Inr a) \<Longrightarrow>
     ds = broadcast s' \<and> listeners s' = listeners s"
  by (auto simp: createOrUpdateAxe_def Let_def split: option.splits)

lemma setStatus_broadcasts:
  "setStatus now i st s = (s', ds, Inr u) \<Longrightarrow> ds = broadcast s' \<and> listeners s' = listeners s"
  by (auto simp: setStatus_def Let_def split: option.splits)

lemma deleteAxe_broadcasts:
  "deleteAxe i s = (s', ds, Inr u) \<Longrightarrow> ds = broadcast s' \<and> listeners s' = listeners s"
  by (auto simp: deleteAxe_def Let_def split: if_splits)

text \<open>The three kinds of mutation on the example store.\<close>

lemma delete_A:
  "deleteAxe ''a-1'' store_A = (\<lparr>axes = [], listeners = [0, 1]\<rparr>, [(0, []), (1, [])], Inr ())"
  by (simp add: deleteAxe_def Map_has_def Map_delete_def broadcast_def getAxesArray_def
      Map_values_def store_A_def)

lemma pause_A:
  "pauseAxe ''t1'' ''a-1'' store_A =
     (\<lparr>axes = [(''a-1'', axe_A\<lparr>lastUpdate := ''t1''\<rparr>)], listeners = [0, 1]\<rparr>,
      [(0, [axe_A\<lparr>lastUpdate := ''t1''\<rparr>]), (1, [axe_A\<lparr>lastUpdate := ''t1''\<rparr>])], Inr ())"
  by (simp add: pauseAxe_def setStatus_def Map_get_def broadcast_def getAxesArray_def
      Map_values_def store_A_def axe_A_def)

lemma create_A:
  "createOrUpdateAxe [instrument_A] ''u-1'' ''t1'' (request_A None) store_A =
     (\<lparr>axes = [(''a-1'', axe_A), (''u-1'', axe_built ''u-1'' ACTIVE)], listeners = [0, 1]\<rparr>,
      [(0, [axe_A, axe_built ''u-1'' ACTIVE]), (1, [axe_A, axe_built ''u-1'' ACTIVE])],
      Inr (axe_built ''u-1'' ACTIVE))"
  by (simp add: createOrUpdateAxe_def Let_def findInstrument_def Map_get_def Map_has_def
      broadcast_def getAxesArray_def Map_values_def store_A_def axe_A_def instrument_A_def
      request_A_def axe_built_def)

text \<open>
  C8. Subscribing calls the new listener at once with the store's current full record list
  (and registers it, leaving the records alone). After every mutation that resolves
  (create-or-update, pause, resume, block, unblock, delete) the deliveries made are exactly
  one call per registered listener, each with the complete record list of the store after
  the mutation, so the array held by every registered subscriber is that list.
\<close>

theorem snapshot_broadcast_contract:
  "snd (subscribe l s) = [(l, getAxesArray s)] \<and>
   l \<in> set (listeners (fst (subscribe l s))) \<and>
   axes (fst (subscribe l s)) = axes s \<and>
   deliver (snd (subscribe l s)) held l = getAxesArray s \<and>
   ((\<exists>a. createOrUpdateAxe insts uuid now r s = (s', ds, Inr a)) \<or>
    pauseAxe now i s = (s', ds, Inr ()) \<or>
    resumeAxe now i s = (s', ds, Inr ()) \<or>
    blockAxe now i s = (s', ds, Inr ()) \<or>
    unblockAxe now i s = (s', ds, Inr ()) \<or>
    deleteAxe i s = (s', ds, Inr ())
    \<longrightarrow> ds = map (\<lambda>k. (k, getAxesArray s')) (listeners s') \<and>
        listeners s' = listeners s \<and>
        (\<forall>k \<in> set (listeners s'). deliver ds held k = getAxesArray s'))"
proof -
  have sub: "snd (subscribe l s) = [(l, getAxesArray s)] \<and>
     l \<in> set (listeners (fst (subscribe l s))) \<and>
     axes (fst (subscribe l s)) = axes s \<and>
     deliver (snd (subscribe l s)) held l = getAxesArray s"
    by (simp add: subscribe_def Let_def getAxesArray_def)
  have mut: "ds = map (\<lambda>k. (k, getAxesArray s')) (listeners s') \<and>
        listeners s' = listeners s \<and>
        (\<forall>k \<in> set (listeners s'). deliver ds held k = getAxesArray s')"
    if "ds = broadcast s' \<and> listeners s' = listeners s"
    using that by (simp add: broadcast_full deliver_same)
  show ?thesis
    using sub mut createOrUpdateAxe_broadcasts [of insts uuid now r s s' ds]
      setStatus_broadcasts [of now i _ s s' ds "()"] deleteAxe_broadcasts [of i s s' ds "()"]
    unfolding pauseAxe_def resumeAxe_def blockAxe_def unblockAxe_def
    by blast
qed

text \<open>
  On the example store with the listeners 0 and 1, each holding \<open>[axe_A]\<close>: a third
  listener subscribes; the record is deleted; the record is paused; a record is created.
\<close>

theorem snapshot_broadcast_contract_witness:
  "snd (subscribe 2 store_A) = [(2, [axe_A])] \<and>
   deleteAxe ''a-1'' store_A = (\<lparr>axes = [], listeners = [0, 1]\<rparr>, [(0, []), (1, [])], Inr ()) \<and>
   deliver [(0, []), (1, [])] (\<lambda>k. [axe_A]) 0 = [] \<and>
   deliver [(0, []), (1, [])] (\<lambda>k. [axe_A]) 1 = [] \<and>
   deliver (fst (snd (pauseAxe ''t1'' ''a-1'' store_A))) (\<lambda>k. [axe_A]) 0
     = [axe_A\<lparr>lastUpdate := ''t1''\<rparr>] \<and>
   deliver (fst (snd (pauseAxe ''t1'' ''a-1'' store_A))) (\<lambda>k. [axe_A]) 1
     = [axe_A\<lparr>lastUpdate := ''t1''\<rparr>] \<and>
   deliver (fst (snd (createOrUpdateAxe [instrument_A] ''u-1'' ''t1'' (request_A None) store_A)))
     (\<lambda>k. [axe_A]) 0 = [axe_A, axe_built ''u-1'' ACTIVE] \<and>
   deliver (fst (snd (createOrUpdateAxe [instrument_A] ''u-1'' ''t1'' (request_A None) store_A)))
     (\<lambda>k. [axe_A]) 1 = [axe_A, axe_built ''u-1'' ACTIVE]"
proof -
  let ?held = "\<lambda>k::nat. [axe_A]"
  let ?sd = "\<lparr>axes = [], listeners = [0, 1]\<rparr>"
  let ?sp = "\<lparr>axes = [(''a-1'', axe_A\<lparr>lastUpdate := ''t1''\<rparr>)], listeners = [0, 1]\<rparr>"
  let ?dp = "[(0::nat, [axe_A\<lparr>lastUpdate := ''t1''\<rparr>]), (1, [axe_A\<lparr>lastUpdate := ''t1''\<rparr>])]"
  let ?sc = "\<lparr>axes = [(''a-1'', axe_A), (''u-1'', axe_built ''u-1'' ACTIVE)],
              listeners = [0, 1]\<rparr>"
  let ?dc = "[(0::nat, [axe_A, axe_built ''u-1'' ACTIVE]), (1, [axe_A, axe_built ''u-1'' ACTIVE])]"
  have ga: "getAxesArray store_A = [axe_A]"
    by (simp add: getAxesArray_def Map_values_def store_A_def)
  have sub: "snd (subscribe 2 store_A) = [(2, [axe_A])]"
    using snapshot_broadcast_contract [of 2 store_A ?held "[]" "[]" "[]" "request_A None"
        ?sd "[(0, []), (1, [])]" "''a-1''"] ga
    by simp
  have del: "\<forall>k \<in> set (listeners ?sd). deliver [(0, []), (1, [])] ?held k = getAxesArray ?sd"
    using snapshot_broadcast_contract [of 2 store_A ?held "[]" "[]" "[]" "request_A None"
        ?sd "[(0, []), (1, [])]" "''a-1''"] delete_A
    by blast
  have pau: "\<forall>k \<in> set (listeners ?sp). deliver ?dp ?held k = getAxesArray ?sp"
    using snapshot_broadcast_contract [of 2 store_A ?held "[]" "[]" "''t1''" "request_A None"
        ?sp ?dp "''a-1''"] pause_A
    by blast
  have cre: "\<forall>k \<in> set (listeners ?sc). deliver ?dc ?held k = getAxesArray ?sc"
    using snapshot_broadcast_contract [of 2 store_A ?held "[instrument_A]" "''u-1''" "''t1''"
        "request_A None" ?sc ?dc "''a-1''"] create_A
    by blast
  have "deleteAxe ''a-1'' store_A = (?sd, [(0, []), (1, [])], Inr ())"
    by (rule delete_A)
  moreover have "deliver [(0, []), (1, [])] ?held 0 = []"
    and "deliver [(0, []), (1, [])] ?held 1 = []"
    using del by (simp_all add: getAxesArray_def Map_values_def)
  moreover have "deliver (fst (snd (pauseAxe ''t1'' ''a-1'' store_A))) ?held 0
        = [axe_A\<lparr>lastUpdate := ''t1''\<rparr>]"
    and "deliver (fst (snd (pauseAxe ''t1'' ''a-1'' store_A))) ?held 1
        = [axe_A\<lparr>lastUpdate := ''t1''\<rparr>]"
    using pau by (simp_all add: pause_A getAxesArray_def Map_values_def)
  moreover have "deliver (fst (snd (createOrUpdateAxe [instrument_A] ''u-1'' ''t1''
                                     (request_A None) store_A))) ?held 0
        = [axe_A, axe_built ''u-1'' ACTIVE]"
    and "deliver (fst (snd (createOrUpdateAxe [instrument_A] ''u-1'' ''t1''
                                     (request_A None) store_A))) ?held 1
        = [axe_A, axe_built ''u-1'' ACTIVE]"
    using cre by (simp_all add: create_A getAxesArray_def Map_values_def)
  ultimately show ?thesis
    using sub by blast
qed

section \<open>Create or update\<close>

text \<open>
  With an identifier that the store does not know, the record is stored under the request's
  own identifier; the identifier that \<^verbatim>\<open>uuidv4()\<close> would give is not used.
\<close>

theorem createOrUpdate_unknown_id_counterexample:
  "\<not> Map_has (axes store_A) ''x-9'' \<and>
   snd (snd (createOrUpdateAxe [instrument_A] ''u-1'' ''t1'' (request_A (Some ''x-9'')) store_A))
     = Inr (axe_built ''x-9'' ACTIVE) \<and>
   axe_id (axe_built ''x-9'' ACTIVE) \<noteq> ''u-1'' \<and>
   map fst (axes (fst (createOrUpdateAxe [instrument_A] ''u-1'' ''t1''
                        (request_A (Some ''x-9'')) store_A)))
     = [''a-1'', ''x-9'']"
  by (simp add: createOrUpdateAxe_def Let_def findInstrument_def Map_get_def Map_has_def
      broadcast_def getAxesArray_def Map_values_def store_A_def axe_A_def instrument_A_def
      request_A_def axe_built_def)

text \<open>
  C2, as the code has it. For a request whose instrument code resolves, the call resolves
  with a record that carries the instrument's fields, the request's side and quantity and
  the new timestamp; the record is stored under its identifier, every other entry of the
  map is as it was, and the full record list is delivered to every listener. If the
  request has no identifier, the identifier is the generated one and the status is ACTIVE.
  If it has an identifier the store does not know, the record is created under that
  identifier, at the end of the map, with status ACTIVE. If it has a non-empty identifier
  the store knows, the record replaces the old one in place and keeps the old status.
\<close>

theorem createOrUpdate_postcondition:
  assumes "findInstrument insts (req_isin r) = Some inst"
  shows "\<exists>s' axe. createOrUpdateAxe insts uuid now r s = (s', broadcast s', Inr axe) \<and>
      listeners s' = listeners s \<and>
      Map_get (axes s') (axe_id axe) = Some axe \<and>
      (\<forall>k. k \<noteq> axe_id axe \<longrightarrow> Map_get (axes s') k = Map_get (axes s) k) \<and>
      axe_isin axe = isin inst \<and> axe_description axe = description inst \<and>
      axe_maturity axe = maturity inst \<and> axe_issuer axe = issuer inst \<and>
      side axe = req_side r \<and> quantity axe = req_quantity r \<and> lastUpdate axe = now \<and>
      (req_id r = None \<longrightarrow> axe_id axe = uuid \<and> status axe = ACTIVE) \<and>
      (\<forall>i. req_id r = Some i \<and> \<not> Map_has (axes s) i \<longrightarrow>
           axe_id axe = i \<and> status axe = ACTIVE \<and>
           map fst (axes s') = map fst (axes s) @ [i]) \<and>
      (\<forall>i old. req_id r = Some i \<and> i \<noteq> [] \<and> Map_get (axes s) i = Some old \<longrightarrow>
           axe_id axe = i \<and> status axe = status old \<and>
           map fst (axes s') = map fst (axes s))"
  using assms
  by (cases "req_id r")
     (auto simp: createOrUpdateAxe_def Let_def Map_get_set keys_Map_set Map_has_get)

text \<open>
  On the example store, whose record \<open>''a-1''\<close> is PAUSED: a request without identifier,
  one with an unknown identifier, and one with the known identifier.
\<close>

theorem createOrUpdate_postcondition_witness:
  "findInstrument [instrument_A] (req_isin (request_A None)) = Some instrument_A \<and>
   snd (snd (createOrUpdateAxe [instrument_A] ''u-1'' ''t1'' (request_A None) store_A))
     = Inr (axe_built ''u-1'' ACTIVE) \<and>
   snd (snd (createOrUpdateAxe [instrument_A] ''u-1'' ''t1'' (request_A (Some ''x-9'')) store_A))
     = Inr (axe_built ''x-9'' ACTIVE) \<and>
   Map_get (axes store_A) ''a-1'' = Some axe_A \<and> status axe_A = PAUSED \<and>
   createOrUpdateAxe [instrument_A] ''u-1'' ''t1'' (request_A (Some ''a-1'')) store_A
     = (\<lparr>axes = [(''a-1'', axe_built ''a-1'' PAUSED)], listeners = [0, 1]\<rparr>,
        [(0, [axe_built ''a-1'' PAUSED]), (1, [axe_built ''a-1'' PAUSED])],
        Inr (axe_built ''a-1'' PAUSED))"
proof -
  have h: "findInstrument [instrument_A] (req_isin (request_A i)) = Some instrument_A" for i
    by (simp add: findInstrument_def request_A_def instrument_A_def)
  have e: "createOrUpdateAxe [instrument_A] ''u-1'' ''t1'' (request_A (Some ''a-1'')) store_A
     = (\<lparr>axes = [(''a-1'', axe_built ''a-1'' PAUSED)], listeners = [0, 1]\<rparr>,
        [(0, [axe_built ''a-1'' PAUSED]), (1, [axe_built ''a-1'' PAUSED])],
        Inr (axe_built ''a-1'' PAUSED))"
    by (simp add: createOrUpdateAxe_def Let_def findInstrument_def Map_get_def Map_has_def
      broadcast_def getAxesArray_def Map_values_def store_A_def axe_A_def instrument_A_def
      request_A_def axe_built_def)
  have u: "snd (snd (createOrUpdateAxe [instrument_A] ''u-1'' ''t1'' (request_A (Some ''x-9''))
              store_A)) = Inr (axe_built ''x-9'' ACTIVE)"
    by (simp add: createOrUpdateAxe_def Let_def findInstrument_def Map_get_def Map_has_def
      broadcast_def getAxesArray_def Map_values_def store_A_def axe_A_def instrument_A_def
      request_A_def axe_built_def)
  show ?thesis
    using h [of None] e u create_A
      createOrUpdate_postcondition [OF h [of None], of "''u-1''" "''t1''" store_A]
      createOrUpdate_postcondition [OF h [of "Some ''x-9''"], of "''u-1''" "''t1''" store_A]
      createOrUpdate_postcondition [OF h [of "Some ''a-1''"], of "''u-1''" "''t1''" store_A]
    by (simp add: store_A_def axe_A_def Map_get_def)
qed

section \<open>Instrument search\<close>

lemma str_includes_sublist: "str_includes hay needle = sublist needle hay"
  by (induction hay) (auto simp: sublist_Cons_right)

lemmas sample_defs = searchInstruments_def lower_sample_def query_kelvin_def units_def
  instrument_Q_def

text \<open>
  C10. For every directory, every query and whatever \<^verbatim>\<open>toLowerCase\<close> does: a query of
  fewer than 2 code units gives the empty result; otherwise the result is the instruments,
  in directory order, whose lower-cased code or lower-cased description contains the
  lower-cased query as a contiguous substring, cut to the first 50.
\<close>

theorem search_contract:
  "(length query < 2 \<longrightarrow> searchInstruments toLowerCase instruments query = []) \<and>
   (2 \<le> length query \<longrightarrow>
      searchInstruments toLowerCase instruments query =
        take 50 (filter (\<lambda>i. sublist (toLowerCase query) (toLowerCase (isin i)) \<or>
                              sublist (toLowerCase query) (toLowerCase (description i)))
                        instruments)) \<and>
   length (searchInstruments toLowerCase instruments query) \<le> 50"
  by (auto simp: searchInstruments_def Let_def str_includes_sublist)

text \<open>
  A query of one code unit; a query in capitals that matches a description; the query
  \<open>ban\<close> followed by the Kelvin sign, which matches \<open>Bank of America\<close>; and a query
  that matches nothing.
\<close>

theorem search_contract_witness:
  "length (units ''0'') < 2 \<and>
   searchInstruments lower_sample [instrument_Q] (units ''0'') = [] \<and>
   2 \<le> length (units ''AMERICA'') \<and>
   searchInstruments lower_sample [instrument_Q] (units ''AMERICA'') = [instrument_Q] \<and>
   2 \<le> length query_kelvin \<and>
   lower_sample query_kelvin = units ''bank'' \<and>
   searchInstruments lower_sample [instrument_Q] query_kelvin = [instrument_Q] \<and>
   take 50 (filter (\<lambda>i. sublist (lower_sample query_kelvin) (lower_sample (isin i)) \<or>
                         sublist (lower_sample query_kelvin) (lower_sample (description i)))
                   [instrument_Q]) = [instrument_Q] \<and>
   searchInstruments lower_sample [instrument_Q] (units ''de00'') = []"
proof -
  have short: "length (units ''0'') < 2"
    by (simp add: units_def)
  have long: "2 \<le> length (units ''AMERICA'')" and kelvin: "2 \<le> length query_kelvin"
    by (simp_all add: units_def query_kelvin_def)
  have l: "lower_sample query_kelvin = units ''bank''"
    by (simp add: sample_defs)
  have e: "searchInstruments lower_sample [instrument_Q] (units ''0'') = []"
    using search_contract [of "units ''0''" lower_sample "[instrument_Q]"] short by blast
  have a: "searchInstruments lower_sample [instrument_Q] (units ''AMERICA'') = [instrument_Q]"
    by (simp add: sample_defs)
  have k: "searchInstruments lower_sample [instrument_Q] query_kelvin = [instrument_Q]"
    by (simp add: sample_defs)
  have d: "searchInstruments lower_sample [instrument_Q] (units ''de00'') = []"
    by (simp add: sample_defs)
  have "searchInstruments lower_sample [instrument_Q] query_kelvin =
      take 50 (filter (\<lambda>i. sublist (lower_sample query_kelvin) (lower_sample (isin i)) \<or>
                            sublist (lower_sample query_kelvin) (lower_sample (description i)))
                      [instrument_Q])"
    using search_contract [of query_kelvin lower_sample "[instrument_Q]"] kelvin by blast
  from this [symmetric] k
  have f: "take 50 (filter (\<lambda>i. sublist (lower_sample query_kelvin) (lower_sample (isin i)) \<or>
                            sublist (lower_sample query_kelvin) (lower_sample (description i)))
                      [instrument_Q]) = [instrument_Q]"
    by (rule trans)
  show ?thesis
    by (intro conjI) (fact short e long a kelvin l k f d)+
qed

section \<open>Rendered rows\<close>

text \<open>
  C1. The rendered list has one row per record of the held list, in the same order. For a
  record with a Pending Edit the row is the record with the draft's side and quantity laid
  over it: a drafted field takes the draft's value, an undrafted field (one that is absent
  or holds \<^verbatim>\<open>null\<close>) and every other field keep the record's value. For a record
  without a Pending Edit the row is the record unchanged. This holds of
  \<^verbatim>\<open>displayData\<close> (V4) and of \<^verbatim>\<open>rowData\<close> (V6), whose rows carry
  \<^verbatim>\<open>_isNew: false\<close> in addition.
\<close>

theorem merge_precedence:
  "length (displayData axs pe) = length axs \<and> length (rowData axs pe) = length axs \<and>
   (\<forall>n < length axs.
      (case pe (axe_id (axs ! n)) of
         None \<Rightarrow> displayData axs pe ! n = axs ! n \<and>
                 Axe.truncate (rowData axs pe ! n) = axs ! n
       | Some e \<Rightarrow>
           displayData axs pe ! n =
             (axs ! n)\<lparr>side := (case edit_side e of None \<Rightarrow> side (axs ! n) | Some v \<Rightarrow> v),
                        quantity := (case edit_quantity e of None \<Rightarrow> quantity (axs ! n)
                                     | Some q \<Rightarrow> q)\<rparr> \<and>
           Axe.truncate (rowData axs pe ! n) =
             (axs ! n)\<lparr>side := (case edit_side e of None \<Rightarrow> side (axs ! n) | Some v \<Rightarrow> v),
                        quantity := (case edit_quantity e of None \<Rightarrow> quantity (axs ! n)
                                     | Some q \<Rightarrow> q)\<rparr>) \<and>
      isNew (rowData axs pe ! n) = Some False)"
  by (auto simp: displayData_def rowData_def Let_def Axe.truncate_def split: option.splits)

theorem merge_precedence_witness:
  "(1::nat) < length [axe_C, axe_A] \<and>
   [''a-1'' \<mapsto> edit_q] (axe_id ([axe_C, axe_A] ! 1)) = Some edit_q \<and>
   displayData [axe_C, axe_A] [''a-1'' \<mapsto> edit_q] ! 1 = axe_A\<lparr>quantity := 2000000\<rparr> \<and>
   rowData [axe_C, axe_A] [''a-1'' \<mapsto> edit_q] ! 1 = row_A \<and>
   (0::nat) < length [axe_C, axe_A] \<and>
   [''a-1'' \<mapsto> edit_q] (axe_id ([axe_C, axe_A] ! 0)) = None \<and>
   displayData [axe_C, axe_A] [''a-1'' \<mapsto> edit_q] ! 0 = axe_C"
proof -
  let ?axs = "[axe_C, axe_A]" and ?pe = "[''a-1'' \<mapsto> edit_q]"
  have n1: "(1::nat) < length ?axs" and n0: "(0::nat) < length ?axs"
    by simp_all
  have p1: "?pe (axe_id (?axs ! 1)) = Some edit_q"
    by (simp add: axe_A_def)
  have p0: "?pe (axe_id (?axs ! 0)) = None"
    by (simp add: axe_C_def)
  note t = merge_precedence [of ?axs ?pe, THEN conjunct2, THEN conjunct2]
  have d1: "displayData ?axs ?pe ! 1 = axe_A\<lparr>quantity := 2000000\<rparr>"
    using t [THEN spec, of 1] n1 p1 by (simp add: edit_q_def axe_A_def)
  have d0: "displayData ?axs ?pe ! 0 = axe_C"
    using t [THEN spec, of 0] n0 p0 by simp
  have r1: "rowData ?axs ?pe ! 1 = row_A"
    by (simp add: rowData_def edit_q_def axe_A_def row_A_def)
  show ?thesis
    using n1 n0 p1 p0 d1 d0 r1 by blast
qed

section \<open>Cell edits of an existing row\<close>

text \<open>
  V6. A cell edit of side or quantity on a row, other than the pinned one, whose record
  \<open>srv\<close> is in the held list: the draft \<open>upd\<close> is the identifier's previous draft (or
  the empty one) with the edited field set to the new value; its effective side and
  quantity (the drafted value, else the record's) are compared with the record's. If both
  are equal, the identifier has no entry in the Pending Edits afterwards; otherwise its
  entry is \<open>upd\<close>. The entries of other identifiers, the held list and the pinned row
  are as they were.
\<close>

lemma onCellValueChanged_V6_existing_row:
  assumes "find (\<lambda>a. axe_id a = i) axs = Some srv"
      and "axe_id row6 = i"
      and "c = SideChange v \<or> c = QuantityChange q"
      and "ex = (case pe i of None \<Rightarrow> \<lparr>edit_side = None, edit_quantity = None\<rparr> | Some e \<Rightarrow> e)"
      and "upd = (if c = SideChange v then ex\<lparr>edit_side := Some v\<rparr> else ex\<lparr>edit_quantity := q\<rparr>)"
      and "unchanged \<longleftrightarrow> coalesce (edit_side upd) (side srv) = side srv \<and>
                        coalesce (edit_quantity upd) (quantity srv) = quantity srv"
      and "pe' = pendingEdits (onCellValueChanged_V6
                   \<lparr>ev_data = Some row6, ev_rowPinned = False, ev_change = c\<rparr>
                   \<lparr>v_axes = axs, pendingEdits = pe, pinnedRow = pr\<rparr>)"
  shows "onCellValueChanged_V6 \<lparr>ev_data = Some row6, ev_rowPinned = False, ev_change = c\<rparr>
           \<lparr>v_axes = axs, pendingEdits = pe, pinnedRow = pr\<rparr>
           = \<lparr>v_axes = axs, pendingEdits = pe', pinnedRow = pr\<rparr> \<and>
         (unchanged \<longrightarrow> i \<notin> dom pe') \<and>
         (\<not> unchanged \<longrightarrow> pe' i = Some upd) \<and>
         (\<forall>k. k \<noteq> i \<longrightarrow> pe' k = pe k)"
  using assms
  by (auto simp: onCellValueChanged_V6_def stagePendingEdit_def Let_def split: option.splits)

text \<open>
  V4. The edit of a row without a draft changes the held record and stores no draft,
  whatever the new value is (the identifiers of the held list being distinct): the record
  that the handler looks up is the one the grid has just written to.
\<close>

lemma find_written:
  "n < length xs \<Longrightarrow> distinct (map axe_id xs) \<Longrightarrow> axe_id w = axe_id (xs ! n) \<Longrightarrow>
     find (\<lambda>a. axe_id a = axe_id w) (xs[n := w]) = Some w"
proof (induction xs arbitrary: n)
  case Nil
  then show ?case by simp
next
  case (Cons x xs)
  show ?case
  proof (cases n)
    case 0
    then show ?thesis by simp
  next
    case (Suc m)
    then have "xs ! m \<in> set xs" using Cons.prems(1) by simp
    then have "axe_id x \<noteq> axe_id (xs ! m)" using Cons.prems(2) by auto
    then show ?thesis using Suc Cons by simp
  qed
qed

lemma assignField_id: "assignField a c = Some w \<Longrightarrow> axe_id w = axe_id a"
  by (cases "(a, c)" rule: assignField.cases) auto

lemma assignField_effective:
  "assignField a c = Some w \<Longrightarrow>
     coalesce (edit_side (withField \<lparr>edit_side = None, edit_quantity = None\<rparr> c)) (side w) = side w \<and>
     coalesce (edit_quantity (withField \<lparr>edit_side = None, edit_quantity = None\<rparr> c)) (quantity w)
       = quantity w"
  by (cases "(a, c)" rule: assignField.cases) auto

lemma editCell_V4_undrafted:
  assumes "n < length axs" and "distinct (map axe_id axs)"
      and "pe (axe_id (axs ! n)) = None" and "assignField (axs ! n) c = Some w"
  shows "editCell_V4 n c \<lparr>v_axes = axs, pendingEdits = pe\<rparr>
           = Some \<lparr>v_axes = axs[n := w], pendingEdits = pe\<rparr>"
proof -
  have i: "axe_id w = axe_id (axs ! n)"
    using assms(4) by (rule assignField_id)
  have f: "find (\<lambda>a. axe_id a = axe_id w) (axs[n := w]) = Some w"
    using assms(1,2) i by (rule find_written)
  have t: "\<And>f v. c \<noteq> TextChange f v"
    using assms(4) by auto
  have p: "pe(axe_id w := None) = pe"
    using assms(3) i by (simp add: fun_upd_idem)
  have "onCellValueChanged_V4 \<lparr>ev_data = Some w, ev_rowPinned = False, ev_change = c\<rparr>
          \<lparr>v_axes = axs[n := w], pendingEdits = pe\<rparr>
        = \<lparr>v_axes = axs[n := w], pendingEdits = pe\<rparr>"
    using f t p assms(3) i assignField_effective [OF assms(4)]
    by (cases c) (simp_all add: onCellValueChanged_V4_def stagePendingEdit_def Let_def)
  then show ?thesis
    using assms t by (cases c) (simp_all add: editCell_V4_def Let_def)
qed

text \<open>
  C4. The claim: a cell edit of side or quantity on an existing row is compared with the
  last confirmed value of the field; if then both effective values equal the confirmed
  ones the Pending Edit of the identifier is removed, otherwise it is inserted or updated
  with the edited field. V6 does so. V4 does not: with the held records \<open>axe_C\<close> and
  \<open>axe_A\<close> (quantity 1000000) and no Pending Edit, the edit of the quantity of
  \<open>axe_A\<close> to 2000000 leaves the Pending Edits empty and the held record with the
  quantity 2000000, where V6 records the draft \<open>edit_q\<close> and leaves the held record
  alone.
\<close>

theorem V4_edit_stores_no_draft:
  "quantity axe_A = 1000000 \<and>
   editCell_V4 1 (QuantityChange (Some 2000000))
       \<lparr>v_axes = [axe_C, axe_A], pendingEdits = Map.empty\<rparr>
     = Some \<lparr>v_axes = [axe_C, axe_A\<lparr>quantity := 2000000\<rparr>], pendingEdits = Map.empty\<rparr> \<and>
   onCellValueChanged_V6
       \<lparr>ev_data = Some row_A, ev_rowPinned = False, ev_change = QuantityChange (Some 2000000)\<rparr>
       \<lparr>v_axes = [axe_C, axe_A], pendingEdits = Map.empty, pinnedRow = DEFAULT_PINNED_ROW\<rparr>
     = \<lparr>v_axes = [axe_C, axe_A], pendingEdits = [''a-1'' \<mapsto> edit_q],
        pinnedRow = DEFAULT_PINNED_ROW\<rparr>"
  by (simp add: editCell_V4_def onCellValueChanged_V4_def onCellValueChanged_V6_def
      stagePendingEdit_def displayData_def axe_A_def axe_C_def row_A_def edit_q_def Let_def)

section \<open>Saving a row\<close>

text \<open>
  C5. Saving a row whose identifier has the Pending Edit \<open>e\<close> and whose record \<open>a\<close>
  is in the held list: the handler returns with the draft applied to the held copy of the
  record (and a new timestamp), with one update command issued that carries the
  identifier, the instrument code, and side and quantity taken from the draft where
  drafted and from the record otherwise, and with the identifier's entry gone from the
  Pending Edits; the outcome of the command plays no part. V4 reads the fallback values
  from the row it is called with, the rendered row of the record or the record itself; V6
  reads them from the held list.
\<close>

theorem save_row_protocol:
  assumes "pe (axe_id a) = Some e"
      and "find (\<lambda>x. axe_id x = axe_id a) axs = Some a"
      and "row4 = a \<or> [row4] = displayData [a] pe"
      and "axe_id row6 = axe_id a"
      and "request = \<lparr>req_id = Some (axe_id a), req_isin = axe_isin a,
                      req_side = (case edit_side e of None \<Rightarrow> side a | Some v \<Rightarrow> v),
                      req_quantity = (case edit_quantity e of None \<Rightarrow> quantity a | Some n \<Rightarrow> n)\<rparr>"
      and "axs' = map (\<lambda>x. if axe_id x = axe_id a
                           then x\<lparr>side := req_side request, quantity := req_quantity request,
                                  lastUpdate := now\<rparr>
                           else x) axs"
  shows "handleSaveRow_V4 now row4 \<lparr>v_axes = axs, pendingEdits = pe\<rparr>
           = (\<lparr>v_axes = axs', pendingEdits = pe(axe_id a := None)\<rparr>, [CreateOrUpdate request], []) \<and>
         handleSaveRow_V6 now row6 \<lparr>v_axes = axs, pendingEdits = pe, pinnedRow = pr\<rparr>
           = (\<lparr>v_axes = axs', pendingEdits = pe(axe_id a := None), pinnedRow = pr\<rparr>,
              [CreateOrUpdate request], []) \<and>
         axe_id a \<notin> dom (pendingEdits (fst (handleSaveRow_V4 now row4
                                               \<lparr>v_axes = axs, pendingEdits = pe\<rparr>))) \<and>
         axe_id a \<notin> dom (pendingEdits (fst (handleSaveRow_V6 now row6
                                  \<lparr>v_axes = axs, pendingEdits = pe, pinnedRow = pr\<rparr>)))"
  using assms
  by (cases "edit_side e"; cases "edit_quantity e")
     (auto simp: handleSaveRow_V4_def handleSaveRow_V6_def displayData_def Let_def)

theorem save_row_protocol_witness:
  "[''a-1'' \<mapsto> edit_q] (axe_id axe_A) = Some edit_q \<and>
   find (\<lambda>x. axe_id x = axe_id axe_A) [axe_C, axe_A] = Some axe_A \<and>
   [axe_A\<lparr>quantity := 2000000\<rparr>] = displayData [axe_A] [''a-1'' \<mapsto> edit_q] \<and>
   axe_id row_A = axe_id axe_A \<and>
   handleSaveRow_V4 ''t1'' (axe_A\<lparr>quantity := 2000000\<rparr>)
       \<lparr>v_axes = [axe_C, axe_A], pendingEdits = [''a-1'' \<mapsto> edit_q]\<rparr>
     = (\<lparr>v_axes = [axe_C, axe_A\<lparr>quantity := 2000000, lastUpdate := ''t1''\<rparr>],
         pendingEdits = Map.empty\<rparr>,
        [CreateOrUpdate \<lparr>req_id = Some ''a-1'', req_isin = ''US0000000000'', req_side = Bid,
                         req_quantity = 2000000\<rparr>], []) \<and>
   handleSaveRow_V6 ''t1'' row_A
       \<lparr>v_axes = [axe_C, axe_A], pendingEdits = [''a-1'' \<mapsto> edit_q],
        pinnedRow = DEFAULT_PINNED_ROW\<rparr>
     = (\<lparr>v_axes = [axe_C, axe_A\<lparr>quantity := 2000000, lastUpdate := ''t1''\<rparr>],
         pendingEdits = Map.empty, pinnedRow = DEFAULT_PINNED_ROW\<rparr>,
        [CreateOrUpdate \<lparr>req_id = Some ''a-1'', req_isin = ''US0000000000'', req_side = Bid,
                         req_quantity = 2000000\<rparr>], [])"
proof -
  have p: "[''a-1'' \<mapsto> edit_q] (axe_id axe_A) = Some edit_q"
    by (simp add: axe_A_def)
  have f: "find (\<lambda>x. axe_id x = axe_id axe_A) [axe_C, axe_A] = Some axe_A"
    by (simp add: axe_A_def axe_C_def)
  have r: "[axe_A\<lparr>quantity := 2000000\<rparr>] = displayData [axe_A] [''a-1'' \<mapsto> edit_q]"
    by (simp add: displayData_def axe_A_def edit_q_def)
  have r': "axe_A\<lparr>quantity := 2000000\<rparr> = axe_A \<or>
            [axe_A\<lparr>quantity := 2000000\<rparr>] = displayData [axe_A] [''a-1'' \<mapsto> edit_q]"
    using r by blast
  have i: "axe_id row_A = axe_id axe_A"
    by (simp add: row_A_def axe_A_def)
  note t = save_row_protocol [OF p f r' i refl refl, where now = "''t1''"
      and pr = DEFAULT_PINNED_ROW]
  show ?thesis
    using p f r i t by (simp add: edit_q_def axe_A_def axe_C_def)
qed

section \<open>Failure of an optimistic command\<close>

lemmas trace_defs = created_def edit_tmp_def store_0_def request_pinned_def axe_srv_def
  row_tmp_def axe_tmp_def instrument_A_def initialV6_def DEFAULT_PINNED_ROW_def

lemmas handler_defs = onCellValueChanged_V6_def stagePendingEdit_def handleSaveRow_V6_def
  handleRevertRow_def revertAll_def handlePauseResume_def handleBlockUnblock_def
  handleDelete_def updatePinnedRowInstrument_def clearPinnedRow_def handleCreatePinned_def
  handleCreatePinned_catch_def listener_def

lemma run_created:
  "run created initialV6 =
     \<lparr>v_axes = [axe_tmp], pendingEdits = Map.empty, pinnedRow = DEFAULT_PINNED_ROW\<rparr>"
  by (simp add: trace_defs handler_defs PINNED_ROW_ID_def Let_def)

lemma rows_created: "rowData [axe_tmp] Map.empty = [row_tmp]"
  by (simp add: rowData_def axe_tmp_def row_tmp_def)

lemma store_creates:
  "createOrUpdateAxe [instrument_A] ''srv-1'' ''t2'' request_pinned store_0
     = (\<lparr>axes = [(''srv-1'', axe_srv)], listeners = [0]\<rparr>, [(0, [axe_srv])], Inr axe_srv)"
  by (simp add: createOrUpdateAxe_def Let_def findInstrument_def Map_get_def Map_has_def
      broadcast_def getAxesArray_def Map_values_def trace_defs)

lemma run_append: "run (es @ fs) view = run fs (run es view)"
  by (induction es arbitrary: view) auto

text \<open>
  A view shows \<open>axe_A\<close>; the row is deleted, which removes it from the list at once; the
  store, which does not hold the record (it has gone in the meantime, or never was there,
  as for an optimistic row), rejects the command; the failure handler shows the error and
  the record is still missing from the rendered list.
\<close>

theorem delete_rollback_counterexample:
  "axe_A \<in> set (displayData (v_axes view_shown) (pendingEdits view_shown)) \<and>
   handleDelete axe_A view_shown
     = (\<lparr>v_axes = [], pendingEdits = Map.empty\<rparr>, [Delete ''a-1''], []) \<and>
   deleteAxe ''a-1'' store_0 = (store_0, [], Inl (AxeNotFound ''a-1'')) \<and>
   handleDelete_catch (AxeNotFound ''a-1'') \<lparr>v_axes = [], pendingEdits = Map.empty\<rparr>
     = (\<lparr>v_axes = [], pendingEdits = Map.empty\<rparr>, [],
        [Notification ''Error'' ''Axe not found: a-1'' ''red'']) \<and>
   axe_A \<notin> set (displayData [] Map.empty)"
  by (simp add: displayData_def view_shown_def handleDelete_def handleDelete_catch_def
      deleteAxe_def Map_has_def store_0_def axe_A_def)

text \<open>
  C3, as the code has it. The failure handler of a delete command shows the error and
  leaves the list and the Pending Edits as they are: it does not put the record back. A
  create from a valid pinned row puts an Active record with the client identifier in front
  of the list and issues one create command without identifier; the failure handler of
  that command removes every record with the client identifier from the list and leaves
  the Pending Edits alone, so no rendered row carries the identifier, and when the
  identifier was not in the list before and the failure comes next, the list is the one
  from before the create.
\<close>

theorem rollback_on_failure:
  "handleDelete_catch err view = (view, [], [Notification ''Error'' (message err) ''red'']) \<and>
   (p_isin (pinnedRow v) \<noteq> [] \<and> p_quantity (pinnedRow v) = Some q \<and> 1 \<le> q \<longrightarrow>
      (\<exists>optimisticAxe.
         v_axes (fst (handleCreatePinned newId now v)) = optimisticAxe # v_axes v \<and>
         axe_id optimisticAxe = newId \<and> status optimisticAxe = ACTIVE \<and>
         pendingEdits (fst (handleCreatePinned newId now v)) = pendingEdits v \<and>
         fst (snd (handleCreatePinned newId now v))
           = [CreateOrUpdate \<lparr>req_id = None, req_isin = p_isin (pinnedRow v),
                              req_side = p_side (pinnedRow v), req_quantity = q\<rparr>]) \<and>
      (newId \<notin> axe_id ` set (v_axes v) \<longrightarrow>
         v_axes (fst (handleCreatePinned_catch newId err (fst (handleCreatePinned newId now v))))
           = v_axes v)) \<and>
   v_axes (fst (handleCreatePinned_catch newId err v'))
     = filter (\<lambda>a. axe_id a \<noteq> newId) (v_axes v') \<and>
   pendingEdits (fst (handleCreatePinned_catch newId err v')) = pendingEdits v' \<and>
   newId \<notin> axe_id ` set (rowData (v_axes (fst (handleCreatePinned_catch newId err v')))
                                   (pendingEdits (fst (handleCreatePinned_catch newId err v'))))"
proof -
  have keep: "filter (\<lambda>a. axe_id a \<noteq> newId) xs = xs" if "newId \<notin> axe_id ` set xs" for xs
    using that by (induction xs) auto
  have rows: "axe_id ` set (rowData xs pe) = axe_id ` set xs" for xs pe
    by (simp add: rowData_def Let_def image_image)
  show ?thesis
    by (auto simp: handleDelete_catch_def handleCreatePinned_def handleCreatePinned_catch_def
        clearPinnedRow_def Let_def keep rows)
qed

theorem rollback_on_failure_witness:
  "p_isin (pinnedRow (step (SelectInstrument None instrument_A) initialV6)) \<noteq> [] \<and>
   p_quantity (pinnedRow (step (SelectInstrument None instrument_A) initialV6)) = Some 1000000 \<and>
   (1::int) \<le> 1000000 \<and>
   ''tmp-1'' \<notin> axe_id ` set (v_axes (step (SelectInstrument None instrument_A) initialV6)) \<and>
   v_axes (fst (handleCreatePinned ''tmp-1'' ''t1''
                  (step (SelectInstrument None instrument_A) initialV6))) = [axe_tmp] \<and>
   v_axes (fst (handleCreatePinned_catch ''tmp-1'' (InstrumentNotFound ''US0000000000'')
                  (fst (handleCreatePinned ''tmp-1'' ''t1''
                          (step (SelectInstrument None instrument_A) initialV6))))) = []"
proof -
  let ?v = "step (SelectInstrument None instrument_A) initialV6"
  have h: "p_isin (pinnedRow ?v) \<noteq> [] \<and> p_quantity (pinnedRow ?v) = Some 1000000 \<and>
           (1::int) \<le> 1000000"
    by (simp add: trace_defs handler_defs)
  have f: "''tmp-1'' \<notin> axe_id ` set (v_axes ?v)"
    by (simp add: trace_defs handler_defs)
  have c: "v_axes (fst (handleCreatePinned ''tmp-1'' ''t1'' ?v)) = [axe_tmp]"
    using run_created by (simp add: created_def)
  have "v_axes (fst (handleCreatePinned_catch ''tmp-1'' (InstrumentNotFound ''US0000000000'')
                  (fst (handleCreatePinned ''tmp-1'' ''t1'' ?v)))) = v_axes ?v"
    using h f rollback_on_failure [where v = ?v and q = 1000000 and newId = "''tmp-1''"
        and now = "''t1''" and err = "InstrumentNotFound ''US0000000000''"]
    by blast
  moreover have "v_axes ?v = []"
    by (simp add: trace_defs handler_defs)
  ultimately show ?thesis
    using h f c by simp
qed

section \<open>Pending Edits and the held list\<close>

text \<open>
  After a creation from the pinned row the optimistic row \<open>''tmp-1''\<close> is edited, which
  records a draft for it; the broadcast that follows the store's creation replaces the list
  by the store's, where the record is \<open>''srv-1''\<close>: the draft's identifier is in no
  record of the list.
\<close>

theorem pending_subset_counterexample:
  "drafts_confirmed initialV6 \<and>
   rowData (v_axes (run created initialV6)) (pendingEdits (run created initialV6)) = [row_tmp] \<and>
   snd (handleCreatePinned ''tmp-1'' ''t1'' (step (SelectInstrument None instrument_A) initialV6))
     = ([CreateOrUpdate request_pinned], []) \<and>
   fst (snd (createOrUpdateAxe [instrument_A] ''srv-1'' ''t2'' request_pinned store_0))
     = [(0, [axe_srv])] \<and>
   pendingEdits (run (created @ [CellValueChanged edit_tmp, Broadcast [axe_srv]]) initialV6) ''tmp-1''
     = Some \<lparr>edit_side = None, edit_quantity = Some 7\<rparr> \<and>
   map axe_id (v_axes (run (created @ [CellValueChanged edit_tmp, Broadcast [axe_srv]]) initialV6))
     = [''srv-1''] \<and>
   \<not> drafts_confirmed (run (created @ [CellValueChanged edit_tmp, Broadcast [axe_srv]]) initialV6)"
proof -
  let ?final = "run (created @ [CellValueChanged edit_tmp, Broadcast [axe_srv]]) initialV6"
  have r: "?final =
     \<lparr>v_axes = [axe_srv],
      pendingEdits = [''tmp-1'' \<mapsto> \<lparr>edit_side = None, edit_quantity = Some 7\<rparr>],
      pinnedRow = DEFAULT_PINNED_ROW\<rparr>"
    by (simp add: run_append run_created)
       (simp add: handler_defs edit_tmp_def row_tmp_def axe_tmp_def Let_def)
  have i: "drafts_confirmed initialV6"
    by (simp add: drafts_confirmed_def initialV6_def)
  have w: "rowData (v_axes (run created initialV6)) (pendingEdits (run created initialV6))
      = [row_tmp]"
    by (simp add: run_created rows_created)
  have c: "snd (handleCreatePinned ''tmp-1'' ''t1''
                 (step (SelectInstrument None instrument_A) initialV6))
     = ([CreateOrUpdate request_pinned], [])"
    by (simp add: trace_defs handler_defs PINNED_ROW_ID_def Let_def)
  have b: "fst (snd (createOrUpdateAxe [instrument_A] ''srv-1'' ''t2'' request_pinned store_0))
     = [(0, [axe_srv])]"
    by (simp add: store_creates)
  have p: "pendingEdits ?final ''tmp-1'' = Some \<lparr>edit_side = None, edit_quantity = Some 7\<rparr>"
    unfolding r by simp
  have m: "map axe_id (v_axes ?final) = [''srv-1'']"
    unfolding r by (simp add: axe_srv_def)
  have n: "\<not> drafts_confirmed ?final"
    unfolding r by (simp add: drafts_confirmed_def axe_srv_def)
  show ?thesis
    using i w c b p m n by blast
qed

lemma find_Some_mem: "find P xs = Some x \<Longrightarrow> x \<in> set xs \<and> P x"
  by (induction xs) (auto split: if_splits)

lemma ids_map:
  assumes "\<And>a. axe_id (g a) = axe_id a"
  shows "axe_id ` set (map g xs) = axe_id ` set xs"
proof -
  have "axe_id ` set (map g xs) = (\<lambda>a. axe_id (g a)) ` set xs"
    by (simp add: image_image)
  then show ?thesis by (simp add: assms)
qed

lemma stagePendingEdit_confirmed:
  "drafts_confirmed view \<Longrightarrow> drafts_confirmed (stagePendingEdit i c view)"
  by (cases c)
     (auto simp: stagePendingEdit_def drafts_confirmed_def Let_def dom_def
        split: option.splits if_splits dest!: find_Some_mem)

lemma handleSaveRow_V6_confirmed:
  "drafts_confirmed view \<Longrightarrow> drafts_confirmed (fst (handleSaveRow_V6 now axe view))"
  by (auto simp: handleSaveRow_V6_def drafts_confirmed_def Let_def ids_map
      simp del: set_map split: option.splits)

lemma handleSaveRow_V4_confirmed:
  "drafts_confirmed view \<Longrightarrow> drafts_confirmed (fst (handleSaveRow_V4 now axe view))"
  by (auto simp: handleSaveRow_V4_def drafts_confirmed_def Let_def ids_map
      simp del: set_map split: option.splits)

lemma handleRevertRow_confirmed:
  "drafts_confirmed view \<Longrightarrow> drafts_confirmed (handleRevertRow axe view)"
  by (auto simp: handleRevertRow_def drafts_confirmed_def)

lemma revertAll_confirmed: "drafts_confirmed (revertAll view)"
  by (simp add: revertAll_def drafts_confirmed_def)

lemma handlePauseResume_confirmed:
  "drafts_confirmed view \<Longrightarrow> drafts_confirmed (fst (handlePauseResume now axe view))"
  by (simp add: handlePauseResume_def drafts_confirmed_def Let_def ids_map del: set_map)

lemma handleBlockUnblock_confirmed:
  "drafts_confirmed view \<Longrightarrow> drafts_confirmed (fst (handleBlockUnblock now axe view))"
  by (simp add: handleBlockUnblock_def drafts_confirmed_def Let_def ids_map del: set_map)

lemma handleDelete_confirmed:
  "drafts_confirmed view \<Longrightarrow> drafts_confirmed (fst (handleDelete axe view))"
  by (auto simp: handleDelete_def drafts_confirmed_def)

lemma onCellValueChanged_V4_confirmed:
  "drafts_confirmed view \<Longrightarrow> drafts_confirmed (onCellValueChanged_V4 ev view)"
  by (auto simp: onCellValueChanged_V4_def stagePendingEdit_confirmed split: option.splits)

lemma onCellValueChanged_V6_confirmed:
  assumes "drafts_confirmed view"
  shows "drafts_confirmed (onCellValueChanged_V6 ev view)"
proof (cases "ev_data ev")
  case None
  then show ?thesis using assms by (simp add: onCellValueChanged_V6_def)
next
  case (Some row)
  show ?thesis
  proof (cases "ev_rowPinned ev")
    case True
    then show ?thesis
      using assms Some
      by (auto simp: onCellValueChanged_V6_def drafts_confirmed_def
          split: CellChange.splits option.splits)
  next
    case False
    then show ?thesis
      using Some stagePendingEdit_confirmed [OF assms]
      by (simp add: onCellValueChanged_V6_def)
  qed
qed

lemma handleCreatePinned_confirmed:
  "drafts_confirmed view \<Longrightarrow> drafts_confirmed (fst (handleCreatePinned newId now view))"
  by (auto simp: handleCreatePinned_def clearPinnedRow_def drafts_confirmed_def Let_def
      split: option.splits)

lemma step_confirmed:
  assumes "drafts_confirmed view" and "local_event e"
  shows "drafts_confirmed (step e view)"
  using assms
  by (cases e)
     (simp_all add: onCellValueChanged_V6_confirmed handleSaveRow_V6_confirmed
        handleRevertRow_confirmed revertAll_confirmed handlePauseResume_confirmed
        handleBlockUnblock_confirmed handleDelete_confirmed handleCreatePinned_confirmed,
      simp_all add: updatePinnedRowInstrument_def clearPinnedRow_def drafts_confirmed_def)

lemma run_confirmed:
  "list_all local_event es \<Longrightarrow> drafts_confirmed view \<Longrightarrow> drafts_confirmed (run es view)"
  by (induction es arbitrary: view) (simp_all add: step_confirmed)

text \<open>
  C6, as the code has it. Every identifier with a Pending Edit is the identifier of a record
  in the held list: in the initial state of a view, and after any sequence of cell edits,
  saves, reverts, status changes, deletes, pinned-row edits and optimistic creations that
  starts in a state where it holds. A broadcast and the failure handler of a create are not
  among these: they replace or filter the list and do not touch the Pending Edits.
\<close>

theorem drafts_confirmed_by_local_events:
  "drafts_confirmed initialV4 \<and> drafts_confirmed initialV6 \<and>
   (list_all local_event es \<longrightarrow> drafts_confirmed view6 \<longrightarrow> drafts_confirmed (run es view6)) \<and>
   (drafts_confirmed view4 \<longrightarrow>
      drafts_confirmed (onCellValueChanged_V4 ev view4) \<and>
      drafts_confirmed (fst (handleSaveRow_V4 now axe view4)) \<and>
      drafts_confirmed (handleRevertRow axe view4) \<and>
      drafts_confirmed (revertAll view4) \<and>
      drafts_confirmed (fst (handlePauseResume now axe view4)) \<and>
      drafts_confirmed (fst (handleBlockUnblock now axe view4)) \<and>
      drafts_confirmed (fst (handleDelete axe view4)))"
  by (simp add: run_confirmed onCellValueChanged_V4_confirmed handleSaveRow_V4_confirmed
      handleRevertRow_confirmed revertAll_confirmed handlePauseResume_confirmed
      handleBlockUnblock_confirmed handleDelete_confirmed)
     (simp add: drafts_confirmed_def initialV4_def initialV6_def)

theorem drafts_confirmed_by_local_events_witness:
  "list_all local_event (created @ [CellValueChanged edit_tmp]) \<and>
   pendingEdits (run (created @ [CellValueChanged edit_tmp]) initialV6) ''tmp-1''
     = Some \<lparr>edit_side = None, edit_quantity = Some 7\<rparr> \<and>
   drafts_confirmed (run (created @ [CellValueChanged edit_tmp]) initialV6) \<and>
   drafts_confirmed view_A \<and>
   fst (handleDelete axe_A view_A) = \<lparr>v_axes = [], pendingEdits = Map.empty\<rparr> \<and>
   drafts_confirmed (fst (handleDelete axe_A view_A))"
proof -
  have l: "list_all local_event (created @ [CellValueChanged edit_tmp])"
    by (simp add: created_def)
  have i: "drafts_confirmed initialV6"
    using drafts_confirmed_by_local_events by blast
  have a: "drafts_confirmed view_A"
    by (simp add: drafts_confirmed_def view_A_def axe_A_def)
  have p: "pendingEdits (run (created @ [CellValueChanged edit_tmp]) initialV6) ''tmp-1''
     = Some \<lparr>edit_side = None, edit_quantity = Some 7\<rparr>"
    by (simp add: run_append run_created)
       (simp add: handler_defs edit_tmp_def row_tmp_def axe_tmp_def Let_def)
  have d: "fst (handleDelete axe_A view_A) = \<lparr>v_axes = [], pendingEdits = Map.empty\<rparr>"
    by (simp add: handleDelete_def view_A_def axe_A_def)
  note t = drafts_confirmed_by_local_events
    [where es = "created @ [CellValueChanged edit_tmp]" and ?view6.0 = initialV6
       and ?view4.0 = view_A and axe = axe_A]
  have r: "drafts_confirmed (run (created @ [CellValueChanged edit_tmp]) initialV6)"
    using t l i by blast
  have v: "drafts_confirmed (fst (handleDelete axe_A view_A))"
    using t a by blast
  show ?thesis
    using l a p d r v by simp
qed

end
